theory Spec2Isabelle
  imports Main "HOL-Library.Multiset"
begin

section \<open>Shared data model (the exported interfaces of the types module)\<close>

text \<open>
  TypeScript \<open>number\<close> fields hold integers in this program (scores, set numbers, jersey
  numbers, counters) and are modelled as \<open>int\<close>. An optional field \<open>f?: T\<close> is a
  \<open>T option\<close>. The field \<open>id\<close> of each interface is prefixed with the interface's name
  (\<open>id\<close> is the identity function of HOL); \<open>type\<close> and \<open>group\<close> are prefixed likewise.
\<close>

datatype PlayerRole = Setter | OutsideHitter | Opposite | MiddleBlocker | Libero | DefensiveSpecialist

record PlayerProfileDetails =
  bio :: string
  height :: int
  weight :: int
  spikeReach :: "int option"
  blockReach :: "int option"
  birthDate :: "string option"
  photoUrl :: string
  achievements :: "string list"
  instagram :: "string option"

record PlayerStats =
  points :: int
  aces :: int
  blocks :: int
  errors :: int
  matchesPlayed :: int
  mvps :: int
  yellowCards :: int
  redCards :: int

record Player =
  player_id :: string
  player_name :: string
  number :: int
  player_role :: PlayerRole
  isCaptain :: bool
  stats :: PlayerStats
  profile :: PlayerProfileDetails

record Team =
  team_id :: string
  team_name :: string
  color :: string
  team_logoUrl :: "string option"
  players :: "Player list"
  coachName :: string

datatype PointType = attack | block | ace | opponent_error | yellow_card | red_card

record PointLog =
  log_teamId :: string
  playerId :: "string option"
  point_type :: PointType
  scoreSnapshot :: string

record MatchSet =
  scoreA :: int
  scoreB :: int
  history :: "PointLog list"
  durationMinutes :: int

datatype FixtureStatus = scheduled | live | fixture_finished

record MatchFixture =
  fixture_id :: string
  fixture_date :: string
  teamAId :: string
  teamBId :: string
  fixture_group :: string
  fixture_status :: FixtureStatus
  winnerId :: "string option"
  resultString :: "string option"

record Tournament =
  tournament_id :: string
  ownerId :: string
  tournament_name :: string
  tournament_logoUrl :: "string option"
  startDate :: string
  endDate :: string
  teams :: "Team list"
  groups :: "(string \<times> string list) list"
  fixtures :: "MatchFixture list"

record MatchConfig =
  maxSets :: int
  pointsPerSet :: int
  tieBreakPoints :: int

datatype RequestType = timeout | substitution

datatype RequestStatus = pending | approved | rejected

record RequestItem =
  request_id :: string
  request_teamId :: string
  request_type :: RequestType
  subDetails :: "(string \<times> string) option"
  request_status :: RequestStatus

datatype MatchStatus = warmup | playing | paused | finished_set | finished

record LiveMatchState =
  matchId :: string
  config :: MatchConfig
  status :: MatchStatus
  currentSet :: int
  sets :: "MatchSet list"
  rotationA :: "Player list"
  rotationB :: "Player list"
  benchA :: "Player list"
  benchB :: "Player list"
  servingTeamId :: string
  scoreA :: int
  scoreB :: int
  timeoutsA :: int
  timeoutsB :: int
  substitutionsA :: int
  substitutionsB :: int
  requests :: "RequestItem list"
  showLeaderboard :: "bool option"
  showStats :: "bool option"
  showScoreboard :: "bool option"

section \<open>JavaScript array and string primitives used by the handlers\<close>

text \<open>
  \<open>xs[i]\<close> reads \<open>undefined\<close> (here \<open>None\<close>) outside \<open>0 .. length - 1\<close>.
\<close>

definition js_index :: "'a list \<Rightarrow> int \<Rightarrow> 'a option" where
  "js_index xs i = (if 0 \<le> i \<and> i < int (length xs) then Some (xs ! nat i) else None)"

text \<open>
  \<open>xs[i] = v\<close> on a copy of a dense array: inside the array it replaces the element, at
  \<open>i = length\<close> it appends. Any other index leaves the typed state space (a larger index
  makes the array sparse, a negative one adds a non-index property to the array object);
  the result is then \<open>None\<close> and the handlers report it as \<open>OutsideModel\<close>.
\<close>

definition js_assign :: "'a list \<Rightarrow> int \<Rightarrow> 'a \<Rightarrow> 'a list option" where
  "js_assign xs i v =
     (if 0 \<le> i \<and> i < int (length xs) then Some (xs[nat i := v])
      else if i = int (length xs) then Some (xs @ [v])
      else None)"

text \<open>Decimal rendering of an integer, as a template literal prints a score.\<close>

fun digits :: "nat \<Rightarrow> string" where
  "digits n = (if n < 10 then [char_of (48 + n)] else digits (n div 10) @ [char_of (48 + n mod 10)])"

declare digits.simps [simp del]

definition show_int :: "int \<Rightarrow> string" where
  "show_int i = (if i < 0 then CHR ''-'' # digits (nat (- i)) else digits (nat i))"

text \<open>The template literal \<open>`${a}-${b}`\<close>.\<close>

definition snapshot :: "int \<Rightarrow> int \<Rightarrow> string" where
  "snapshot a b = show_int a @ ''-'' @ show_int b"

text \<open>\<open>Math.ceil(n / 2)\<close> on an integer \<open>n\<close>.\<close>

definition ceil_half :: "int \<Rightarrow> int" where
  "ceil_half n = (n + 1) div 2"

text \<open>A string used as a condition: the empty string is falsy.\<close>

definition truthy_str :: "string option \<Rightarrow> bool" where
  "truthy_str s = (case s of None \<Rightarrow> False | Some t \<Rightarrow> t \<noteq> [])"

text \<open>
  What a handler does to the \<open>liveMatch\<close> slice: it returns before any state update, it
  throws, it stores a value outside the typed state space, or it stores a new state.
\<close>

datatype outcome = Returned | Thrown | OutsideModel | Updated LiveMatchState

definition emptySet :: MatchSet where
  "emptySet = \<lparr> MatchSet.scoreA = 0, MatchSet.scoreB = 0, history = [], durationMinutes = 0 \<rparr>"

section \<open>Match handlers of the tournament console (the App component with set management)\<close>

text \<open>
  The source of this component is the unnamed file \<open>part_001\<close>; its handlers keep their
  names. \<open>updateLiveMatch(prev => ...)\<close> stores the updater's result; the updater runs on the
  current \<open>liveMatch\<close>, which is the value the enclosing handler tested.
\<close>

subsection \<open>\<open>handleSubtractPoint\<close>\<close>

definition subtractPoint_write :: "LiveMatchState \<Rightarrow> int \<Rightarrow> int \<Rightarrow> LiveMatchState option" where
  "subtractPoint_write prev newScoreA newScoreB =
     (let setIndex = currentSet prev - 1;
          currentSetData = (case js_index (sets prev) setIndex of Some s \<Rightarrow> s | None \<Rightarrow> emptySet);
          currentHistory = butlast (history currentSetData)
      in map_option
           (\<lambda>finishedSets. prev\<lparr> status := playing, scoreA := newScoreA, scoreB := newScoreB,
                                  sets := finishedSets \<rparr>)
           (js_assign (sets prev) setIndex
              (currentSetData\<lparr> MatchSet.scoreA := newScoreA, MatchSet.scoreB := newScoreB,
                               history := currentHistory \<rparr>)))"

definition subtractPoint_updater :: "bool \<Rightarrow> LiveMatchState \<Rightarrow> LiveMatchState option" where
  "subtractPoint_updater isTeamA prev =
     (if isTeamA \<and> scoreA prev > 0 then subtractPoint_write prev (scoreA prev - 1) (scoreB prev)
      else if \<not> isTeamA \<and> scoreB prev > 0 then subtractPoint_write prev (scoreA prev) (scoreB prev - 1)
      else Some prev)"

definition handleSubtractPoint ::
  "LiveMatchState option \<Rightarrow> Tournament option \<Rightarrow> bool \<Rightarrow> string \<Rightarrow> outcome" where
  "handleSubtractPoint liveMatch activeTournament isAdmin teamId =
     (case liveMatch of
        None \<Rightarrow> Returned
      | Some lm \<Rightarrow>
         (case activeTournament of
            None \<Rightarrow> Returned
          | Some t \<Rightarrow>
             if \<not> isAdmin then Returned
             else (case find (\<lambda>f. fixture_id f = matchId lm) (fixtures t) of
                     None \<Rightarrow> Thrown
                   | Some fixture \<Rightarrow>
                      (case subtractPoint_updater (teamId = teamAId fixture) lm of
                         None \<Rightarrow> OutsideModel
                       | Some m \<Rightarrow> Updated m))))"

subsection \<open>\<open>rotateTeam\<close> and \<open>handlePoint\<close>\<close>

definition rotateTeam :: "Player list \<Rightarrow> Player list" where
  "rotateTeam ps = (case ps of [] \<Rightarrow> [] | first # rest \<Rightarrow> rest @ [first])"

text \<open>The new scores, rotations and serving team when side A, respectively B, wins the rally.\<close>

definition pointToA ::
  "MatchFixture \<Rightarrow> LiveMatchState \<Rightarrow> int \<times> int \<times> Player list \<times> Player list \<times> string" where
  "pointToA fixture prev =
     (if servingTeamId prev \<noteq> teamAId fixture
      then (scoreA prev + 1, scoreB prev, rotateTeam (rotationA prev), rotationB prev, teamAId fixture)
      else (scoreA prev + 1, scoreB prev, rotationA prev, rotationB prev, servingTeamId prev))"

definition pointToB ::
  "MatchFixture \<Rightarrow> LiveMatchState \<Rightarrow> int \<times> int \<times> Player list \<times> Player list \<times> string" where
  "pointToB fixture prev =
     (if servingTeamId prev \<noteq> teamBId fixture
      then (scoreA prev, scoreB prev + 1, rotationA prev, rotateTeam (rotationB prev), teamBId fixture)
      else (scoreA prev, scoreB prev + 1, rotationA prev, rotationB prev, servingTeamId prev))"

definition setsWonA :: "MatchSet list \<Rightarrow> int" where
  "setsWonA ss = int (length (filter (\<lambda>s. MatchSet.scoreA s > MatchSet.scoreB s) ss))"

definition setsWonB :: "MatchSet list \<Rightarrow> int" where
  "setsWonB ss = int (length (filter (\<lambda>s. MatchSet.scoreB s > MatchSet.scoreA s) ss))"

definition handlePoint_updater ::
  "MatchFixture \<Rightarrow> string \<Rightarrow> PointType \<Rightarrow> string option \<Rightarrow> LiveMatchState \<Rightarrow> LiveMatchState option" where
  "handlePoint_updater fixture teamId ty pl prev =
     (if status prev = finished then Some prev
      else
        let newStatus = (if status prev = warmup \<or> status prev = paused then playing else status prev);
            pointAwarded = (ty \<noteq> yellow_card);
            (newScoreA, newScoreB, newRotationA, newRotationB, newServingTeam) =
              (if ty = yellow_card
               then (scoreA prev, scoreB prev, rotationA prev, rotationB prev, servingTeamId prev)
               else if ty = red_card
               then (if teamId = teamAId fixture then pointToB fixture prev else pointToA fixture prev)
               else (if teamId = teamAId fixture then pointToA fixture prev else pointToB fixture prev));
            pointsToWin = (if currentSet prev = maxSets (config prev)
                           then tieBreakPoints (config prev) else pointsPerSet (config prev));
            setFinished = ((newScoreA \<ge> pointsToWin \<or> newScoreB \<ge> pointsToWin)
                           \<and> \<bar>newScoreA - newScoreB\<bar> \<ge> 2);
            setIndex = currentSet prev - 1;
            currentSetData = (case js_index (sets prev) setIndex of Some s \<Rightarrow> s | None \<Rightarrow> emptySet);
            entry = \<lparr> log_teamId = teamId, playerId = pl, point_type = ty,
                      scoreSnapshot = snapshot newScoreA newScoreB \<rparr>
        in map_option
             (\<lambda>finishedSets.
                 prev\<lparr> status :=
                          (if setFinished \<and> pointAwarded
                           then (if setsWonA finishedSets = ceil_half (maxSets (config prev))
                                    \<or> setsWonB finishedSets = ceil_half (maxSets (config prev))
                                 then finished else finished_set)
                           else newStatus),
                        scoreA := newScoreA, scoreB := newScoreB, sets := finishedSets,
                        servingTeamId := newServingTeam,
                        rotationA := newRotationA, rotationB := newRotationB \<rparr>)
             (js_assign (sets prev) setIndex
                (currentSetData\<lparr> MatchSet.scoreA := newScoreA, MatchSet.scoreB := newScoreB,
                                 history := history currentSetData @ [entry] \<rparr>)))"

definition handlePoint ::
  "LiveMatchState option \<Rightarrow> Tournament option \<Rightarrow> string \<Rightarrow> PointType \<Rightarrow> string option \<Rightarrow> outcome" where
  "handlePoint liveMatch activeTournament teamId ty pl =
     (case liveMatch of
        None \<Rightarrow> Returned
      | Some lm \<Rightarrow>
         (case activeTournament of
            None \<Rightarrow> Returned
          | Some t \<Rightarrow>
             (case find (\<lambda>f. fixture_id f = matchId lm) (fixtures t) of
                None \<Rightarrow> Thrown
              | Some fixture \<Rightarrow>
                 (case handlePoint_updater fixture teamId ty pl lm of
                    None \<Rightarrow> OutsideModel
                  | Some m \<Rightarrow> Updated m))))"

subsection \<open>\<open>handleSetOperation\<close> and \<open>handleStartNextSet\<close>\<close>

datatype SetAction = START | FINISH | REOPEN

text \<open>The loop \<open>while (updatedSets.length <= setIndex) updatedSets.push(empty)\<close>.\<close>

definition padSets :: "MatchSet list \<Rightarrow> int \<Rightarrow> MatchSet list" where
  "padSets ss setIndex = ss @ replicate (nat (setIndex + 1 - int (length ss))) emptySet"

definition serverOfSet :: "MatchFixture \<Rightarrow> int \<Rightarrow> string" where
  "serverOfSet fixture setNum = (if odd setNum then teamAId fixture else teamBId fixture)"

definition handleSetOperation_updater ::
  "MatchFixture option \<Rightarrow> SetAction \<Rightarrow> int \<Rightarrow> LiveMatchState \<Rightarrow> LiveMatchState option" where
  "handleSetOperation_updater fixture action setIndex prev =
     (let updatedSets = padSets (sets prev) setIndex in
      case action of
        START \<Rightarrow>
          (case js_index updatedSets setIndex of
             None \<Rightarrow> None
           | Some s \<Rightarrow>
               Some (prev\<lparr> status := playing, currentSet := setIndex + 1,
                            scoreA := MatchSet.scoreA s, scoreB := MatchSet.scoreB s,
                            sets := updatedSets,
                            servingTeamId := (case fixture of
                                                None \<Rightarrow> servingTeamId prev
                                              | Some f \<Rightarrow> serverOfSet f (setIndex + 1)),
                            timeoutsA := 0, timeoutsB := 0,
                            substitutionsA := 0, substitutionsB := 0 \<rparr>))
      | FINISH \<Rightarrow>
          (if setsWonA updatedSets \<ge> ceil_half (maxSets (config prev))
              \<or> setsWonB updatedSets \<ge> ceil_half (maxSets (config prev))
           then Some (prev\<lparr> status := finished, sets := updatedSets \<rparr>)
           else if currentSet prev = setIndex + 1
           then
             (let nextSetNum = currentSet prev + 1;
                  nextSets = (if int (length updatedSets) < nextSetNum
                              then updatedSets @ [emptySet] else updatedSets)
              in Some (prev\<lparr> status := playing, currentSet := nextSetNum,
                              scoreA := 0, scoreB := 0, sets := nextSets,
                              servingTeamId := (case fixture of
                                                  None \<Rightarrow> servingTeamId prev
                                                | Some f \<Rightarrow> serverOfSet f nextSetNum),
                              timeoutsA := 0, timeoutsB := 0,
                              substitutionsA := 0, substitutionsB := 0 \<rparr>))
           else Some (prev\<lparr> sets := updatedSets \<rparr>))
      | REOPEN \<Rightarrow>
          (case js_index updatedSets setIndex of
             None \<Rightarrow> None
           | Some s \<Rightarrow>
               Some (prev\<lparr> status := paused, currentSet := setIndex + 1,
                            scoreA := MatchSet.scoreA s, scoreB := MatchSet.scoreB s,
                            sets := updatedSets \<rparr>)))"

text \<open>
  In the updater \<open>None\<close> is the \<open>TypeError\<close> of reading \<open>updatedSets[setIndex].scoreA\<close> at
  a negative index.
\<close>

definition handleSetOperation ::
  "LiveMatchState option \<Rightarrow> Tournament option \<Rightarrow> SetAction \<Rightarrow> int \<Rightarrow> outcome" where
  "handleSetOperation liveMatch activeTournament action setIndex =
     (case activeTournament of
        None \<Rightarrow> Returned
      | Some t \<Rightarrow>
         (case liveMatch of
            None \<Rightarrow> Returned
          | Some lm \<Rightarrow>
             (case handleSetOperation_updater
                     (find (\<lambda>f. fixture_id f = matchId lm) (fixtures t)) action setIndex lm of
                None \<Rightarrow> Thrown
              | Some m \<Rightarrow> Updated m)))"

definition handleStartNextSet :: "LiveMatchState option \<Rightarrow> Tournament option \<Rightarrow> outcome" where
  "handleStartNextSet liveMatch activeTournament =
     (case liveMatch of
        None \<Rightarrow> Returned
      | Some lm \<Rightarrow> handleSetOperation liveMatch activeTournament FINISH (currentSet lm - 1))"

subsection \<open>\<open>confirmStartMatch\<close>, \<open>handleConfirmSub\<close> and \<open>handleUpdateRotation\<close>\<close>

text \<open>Players of \<open>ps\<close> whose id does not occur in \<open>rot\<close>: \<open>ps.filter(p => !rot.find(r => r.id === p.id))\<close>.\<close>

definition notInRotation :: "Player list \<Rightarrow> Player list \<Rightarrow> Player list" where
  "notInRotation rot ps = filter (\<lambda>p. find (\<lambda>r. player_id r = player_id p) rot = None) ps"

text \<open>
  \<open>showMatchConfigModal\<close> holds a fixture id, the marker \<open>LIVE_EDIT\<close> or \<open>null\<close>. A team
  that \<open>find\<close> does not return makes \<open>teamA.players\<close> throw.
\<close>

definition confirmStartMatch :: "Tournament option \<Rightarrow> string option \<Rightarrow> MatchConfig \<Rightarrow> outcome" where
  "confirmStartMatch activeTournament showMatchConfigModal matchConfig =
     (case activeTournament of
        None \<Rightarrow> Returned
      | Some t \<Rightarrow>
         if \<not> truthy_str showMatchConfigModal \<or> showMatchConfigModal = Some ''LIVE_EDIT'' then Returned
         else
           (case showMatchConfigModal of
              None \<Rightarrow> Returned
            | Some fixtureId \<Rightarrow>
               (case find (\<lambda>f. fixture_id f = fixtureId) (fixtures t) of
                  None \<Rightarrow> Returned
                | Some fixture \<Rightarrow>
                   (case find (\<lambda>tm. team_id tm = teamAId fixture) (teams t) of
                      None \<Rightarrow> Thrown
                    | Some teamA \<Rightarrow>
                       (case find (\<lambda>tm. team_id tm = teamBId fixture) (teams t) of
                          None \<Rightarrow> Thrown
                        | Some teamB \<Rightarrow>
                           Updated
                             \<lparr> matchId = fixtureId, config = matchConfig, status = warmup,
                               currentSet = 1, sets = [emptySet],
                               rotationA = take 6 (players teamA),
                               rotationB = take 6 (players teamB),
                               benchA = notInRotation (take 6 (players teamA)) (players teamA),
                               benchB = notInRotation (take 6 (players teamB)) (players teamB),
                               servingTeamId = team_id teamA,
                               scoreA = 0, scoreB = 0, timeoutsA = 0, timeoutsB = 0,
                               substitutionsA = 0, substitutionsB = 0, requests = [],
                               showLeaderboard = None, showStats = None,
                               showScoreboard = None \<rparr>)))))"

primrec findIndex :: "('a \<Rightarrow> bool) \<Rightarrow> 'a list \<Rightarrow> nat option" where
  "findIndex P [] = None"
| "findIndex P (x # xs) = (if P x then Some 0 else map_option Suc (findIndex P xs))"

definition confirmSub_updater :: "bool \<Rightarrow> int \<Rightarrow> int \<Rightarrow> LiveMatchState \<Rightarrow> LiveMatchState" where
  "confirmSub_updater isTeamA outNum inNum prev =
     (let currentRotation = (if isTeamA then rotationA prev else rotationB prev);
          currentBench = (if isTeamA then benchA prev else benchB prev)
      in case findIndex (\<lambda>p. number p = outNum) currentRotation of
           None \<Rightarrow> prev
         | Some playerOutIndex \<Rightarrow>
            (case findIndex (\<lambda>p. number p = inNum) currentBench of
               None \<Rightarrow> prev
             | Some playerInIndex \<Rightarrow>
                (let playerOut = currentRotation ! playerOutIndex;
                     playerIn = currentBench ! playerInIndex;
                     newRotation = currentRotation[playerOutIndex := playerIn];
                     newBench = currentBench[playerInIndex := playerOut]
                 in prev\<lparr> rotationA := (if isTeamA then newRotation else rotationA prev),
                           rotationB := (if \<not> isTeamA then newRotation else rotationB prev),
                           benchA := (if isTeamA then newBench else benchA prev),
                           benchB := (if \<not> isTeamA then newBench else benchB prev),
                           substitutionsA := (if isTeamA then substitutionsA prev + 1
                                              else substitutionsA prev),
                           substitutionsB := (if \<not> isTeamA then substitutionsB prev + 1
                                              else substitutionsB prev) \<rparr>)))"

text \<open>
  \<open>showSubModal\<close> is \<open>{teamId}\<close> or \<open>null\<close>; \<open>outNum\<close> and \<open>inNum\<close> are the results of
  \<open>parseInt\<close> on the two input fields, \<open>None\<close> for \<open>NaN\<close>.
\<close>

definition handleConfirmSub ::
  "LiveMatchState option \<Rightarrow> string option \<Rightarrow> Tournament option \<Rightarrow> int option \<Rightarrow> int option \<Rightarrow> outcome" where
  "handleConfirmSub liveMatch showSubModal activeTournament outNum inNum =
     (case liveMatch of
        None \<Rightarrow> Returned
      | Some lm \<Rightarrow>
         (case showSubModal of
            None \<Rightarrow> Returned
          | Some teamId \<Rightarrow>
             (case activeTournament of
                None \<Rightarrow> Returned
              | Some t \<Rightarrow>
                 (case outNum of
                    None \<Rightarrow> Returned
                  | Some out \<Rightarrow>
                     (case inNum of
                        None \<Rightarrow> Returned
                      | Some inn \<Rightarrow>
                         Updated
                           (confirmSub_updater
                              (case find (\<lambda>f. fixture_id f = matchId lm) (fixtures t) of
                                 None \<Rightarrow> False
                               | Some fixture \<Rightarrow> teamId = teamAId fixture)
                              out inn lm))))))"

text \<open>
  \<open>rotationInput\<close> is given as the list of \<open>parseInt\<close> results of the six input fields.
\<close>

definition pickRotation :: "Team \<Rightarrow> int option list \<Rightarrow> Player list" where
  "pickRotation team rotationInput =
     List.map_filter
       (\<lambda>n. case n of None \<Rightarrow> None | Some num \<Rightarrow> find (\<lambda>pl. number pl = num) (players team))
       rotationInput"

definition handleUpdateRotation ::
  "LiveMatchState option \<Rightarrow> string option \<Rightarrow> Tournament option \<Rightarrow> int option list \<Rightarrow> outcome" where
  "handleUpdateRotation liveMatch showRotationModal activeTournament rotationInput =
     (case liveMatch of
        None \<Rightarrow> Returned
      | Some lm \<Rightarrow>
         (case showRotationModal of
            None \<Rightarrow> Returned
          | Some teamId \<Rightarrow>
             (case activeTournament of
                None \<Rightarrow> Returned
              | Some t \<Rightarrow>
                 (case find (\<lambda>tm. team_id tm = teamId) (teams t) of
                    None \<Rightarrow> Returned
                  | Some team \<Rightarrow>
                     (let isTeamA = (case find (\<lambda>f. fixture_id f = matchId lm) (fixtures t) of
                                       None \<Rightarrow> False
                                     | Some fixture \<Rightarrow> teamId = teamAId fixture);
                          newRotation = pickRotation team rotationInput;
                          newBench = notInRotation newRotation (players team)
                      in if length newRotation \<noteq> 6 then Returned
                         else Updated
                                (lm\<lparr> rotationA := (if isTeamA then newRotation else rotationA lm),
                                     rotationB := (if \<not> isTeamA then newRotation else rotationB lm),
                                     benchA := (if isTeamA then newBench else benchA lm),
                                     benchB := (if \<not> isTeamA then newBench else benchB lm) \<rparr>))))))"

section \<open>Match handlers of the compact App component (\<open>src/src/App.tsx\<close>)\<close>

text \<open>
  Its \<open>handlePoint\<close> and \<open>handleNextSet\<close> are named \<open>App_handlePoint\<close> and
  \<open>App_handleNextSet\<close>, to tell them from the console's handlers. This component keeps the registered teams in the state slice \<open>teams\<close> (here the argument
  \<open>teamsState\<close>) and calls \<open>setLiveMatch\<close> with the new value directly.
\<close>

subsection \<open>Team creation and \<open>startMatch\<close>\<close>

text \<open>The team object of the \<open>Crear Equipo\<close> card: a team starts without players.\<close>

definition App_newTeam :: "string \<Rightarrow> string \<Rightarrow> string \<Rightarrow> Team" where
  "App_newTeam i n coach =
     \<lparr> team_id = i, team_name = n, color = ''#0000ff'', team_logoUrl = None, players = [],
       coachName = coach \<rparr>"


definition startMatch :: "Team list \<Rightarrow> MatchFixture \<Rightarrow> outcome" where
  "startMatch teamsState fixture =
     (case find (\<lambda>t. team_id t = teamAId fixture) teamsState of
        None \<Rightarrow> Returned
      | Some teamA \<Rightarrow>
         (case find (\<lambda>t. team_id t = teamBId fixture) teamsState of
            None \<Rightarrow> Returned
          | Some teamB \<Rightarrow>
             Updated
               \<lparr> matchId = fixture_id fixture,
                 config = \<lparr> maxSets = 5, pointsPerSet = 25, tieBreakPoints = 15 \<rparr>,
                 status = warmup, currentSet = 1, sets = [emptySet],
                 rotationA = take 6 (players teamA), rotationB = take 6 (players teamB),
                 benchA = drop 6 (players teamA), benchB = drop 6 (players teamB),
                 servingTeamId = team_id teamA,
                 scoreA = 0, scoreB = 0, timeoutsA = 0, timeoutsB = 0,
                 substitutionsA = 0, substitutionsB = 0, requests = [],
                 showLeaderboard = None, showStats = None, showScoreboard = None \<rparr>))"

subsection \<open>\<open>handlePoint\<close>\<close>

definition teamOfRotation :: "Team list \<Rightarrow> Player list \<Rightarrow> Team option" where
  "teamOfRotation teamsState rot =
     find (\<lambda>t. list_ex (\<lambda>p. list_ex (\<lambda>r. player_id r = player_id p) rot) (players t)) teamsState"

definition teamOfPlayer :: "Team list \<Rightarrow> Player \<Rightarrow> Team option" where
  "teamOfPlayer teamsState r =
     find (\<lambda>t. list_ex (\<lambda>p. player_id p = player_id r) (players t)) teamsState"

text \<open>\<open>const p = rot.pop(); if (p) rot.unshift(p)\<close>: the last player moves to the front.\<close>

definition rotateBack :: "Player list \<Rightarrow> Player list" where
  "rotateBack ps = (if ps = [] then [] else last ps # butlast ps)"

definition firstPlayerId :: "Player list \<Rightarrow> string option" where
  "firstPlayerId rot = (case rot of [] \<Rightarrow> None | r # _ \<Rightarrow> Some (player_id r))"

definition firstPlayerTeamId :: "Team list \<Rightarrow> Player list \<Rightarrow> string option" where
  "firstPlayerTeamId teamsState rot =
     (case rot of [] \<Rightarrow> None | r # _ \<Rightarrow> map_option team_id (teamOfPlayer teamsState r))"

definition App_handlePoint ::
  "Team list \<Rightarrow> LiveMatchState option \<Rightarrow> string \<Rightarrow> PointType \<Rightarrow> string option \<Rightarrow> outcome" where
  "App_handlePoint teamsState liveMatch teamId ty pl =
     (case liveMatch of
        None \<Rightarrow> Returned
      | Some lm \<Rightarrow>
         if status lm = finished \<or> status lm = finished_set then Returned
         else
          (let isTeamA = (case teamOfRotation teamsState (rotationA lm) of
                            None \<Rightarrow> False | Some t \<Rightarrow> teamId = team_id t);
               isRedCard = (ty = red_card);
               isYellowCard = (ty = yellow_card);
               pointForTeamId =
                 (if isYellowCard then None
                  else if isRedCard
                  then (if isTeamA then firstPlayerId (rotationB lm) else firstPlayerId (rotationA lm))
                  else Some teamId);
               isSideA = isTeamA;
               nextScoreA =
                 (if truthy_str pointForTeamId
                  then (if isSideA \<and> pointForTeamId = Some teamId then scoreA lm + 1
                        else if \<not> isSideA \<and> pointForTeamId = Some teamId then scoreA lm
                        else if isRedCard then (if isSideA then scoreA lm else scoreA lm + 1)
                        else scoreA lm)
                  else scoreA lm);
               nextScoreB =
                 (if truthy_str pointForTeamId
                  then (if isSideA \<and> pointForTeamId = Some teamId then scoreB lm
                        else if \<not> isSideA \<and> pointForTeamId = Some teamId then scoreB lm + 1
                        else if isRedCard then (if isSideA then scoreB lm + 1 else scoreB lm)
                        else scoreB lm)
                  else scoreB lm);
               pointWinnerIsA = ((pointForTeamId = Some teamId \<and> isSideA) \<or> (isRedCard \<and> \<not> isSideA));
               pointWinnerTeamId =
                 (if pointWinnerIsA then firstPlayerTeamId teamsState (rotationA lm)
                  else firstPlayerTeamId teamsState (rotationB lm));
               sideOut = (truthy_str pointForTeamId \<and> Some (servingTeamId lm) \<noteq> pointWinnerTeamId);
               nextServingTeam =
                 (if sideOut
                  then (case pointWinnerTeamId of
                          None \<Rightarrow> servingTeamId lm
                        | Some w \<Rightarrow> if w \<noteq> [] then w else servingTeamId lm)
                  else servingTeamId lm);
               nextRotationA = (if sideOut \<and> pointWinnerIsA then rotateBack (rotationA lm)
                                else rotationA lm);
               nextRotationB = (if sideOut \<and> \<not> pointWinnerIsA then rotateBack (rotationB lm)
                                else rotationB lm);
               newHistoryItem = \<lparr> log_teamId = teamId, playerId = pl, point_type = ty,
                                   scoreSnapshot = snapshot nextScoreA nextScoreB \<rparr>;
               limit = (if currentSet lm = maxSets (config lm)
                        then tieBreakPoints (config lm) else pointsPerSet (config lm));
               lead = \<bar>nextScoreA - nextScoreB\<bar>;
               setWon = ((nextScoreA \<ge> limit \<or> nextScoreB \<ge> limit) \<and> lead \<ge> 2)
           in (case js_index (sets lm) (currentSet lm - 1) of
                None \<Rightarrow> Thrown
              | Some cur \<Rightarrow>
                 Updated
                   (lm\<lparr> scoreA := nextScoreA, scoreB := nextScoreB,
                        sets := (sets lm)[nat (currentSet lm - 1) :=
                                   cur\<lparr> MatchSet.scoreA := nextScoreA, MatchSet.scoreB := nextScoreB,
                                        history := history cur @ [newHistoryItem] \<rparr>],
                        servingTeamId := nextServingTeam,
                        rotationA := nextRotationA, rotationB := nextRotationB,
                        status := (if setWon then finished_set else playing) \<rparr>))))"

text \<open>
  \<open>Thrown\<close> is the \<open>TypeError\<close> of \<open>newSets[currentSet - 1].history\<close> when the array has no
  entry at that index; it is raised before \<open>setLiveMatch\<close> is reached.
\<close>

subsection \<open>\<open>handleNextSet\<close>\<close>

text \<open>
  Only the effect on \<open>liveMatch\<close> is modelled; the fixture bookkeeping that follows
  \<open>setLiveMatch\<close> in the match-over branch writes the \<open>tournaments\<close> slice.
\<close>

definition App_handleNextSet :: "LiveMatchState option \<Rightarrow> outcome" where
  "App_handleNextSet liveMatch =
     (case liveMatch of
        None \<Rightarrow> Returned
      | Some lm \<Rightarrow>
         if setsWonA (sets lm) = ceil_half (maxSets (config lm))
            \<or> setsWonB (sets lm) = ceil_half (maxSets (config lm))
         then Updated (lm\<lparr> status := finished \<rparr>)
         else Updated
                (lm\<lparr> currentSet := currentSet lm + 1, scoreA := 0, scoreB := 0,
                     timeoutsA := 0, timeoutsB := 0, substitutionsA := 0, substitutionsB := 0,
                     sets := sets lm @ [emptySet], status := playing \<rparr>))"

section \<open>JSON values\<close>

text \<open>
  A value that \<open>JSON.parse\<close> returns. An object is the list of its own properties in
  enumeration order. \<open>undefined\<close> is \<open>None\<close> of \<open>json option\<close>. A message on the wire is
  modelled by what \<open>JSON.parse\<close> makes of its text: \<open>Some v\<close>, or \<open>None\<close> when the parser
  throws a \<open>SyntaxError\<close>; a frame handed to \<open>send\<close> is modelled by the value the receiver
  parses.
\<close>

datatype json = JNull | JBool bool | JNum int | JStr string | JArr "json list"
  | JObj "(string \<times> json) list"

text \<open>
  \<open>v.name\<close> for the member names \<open>type\<close>, \<open>path\<close> and \<open>data\<close> on a value other than \<open>null\<close>:
  only an object can have such a member.
\<close>

definition get_member :: "json \<Rightarrow> string \<Rightarrow> json option" where
  "get_member v k = (case v of JObj fs \<Rightarrow> map_of fs k | _ \<Rightarrow> None)"

text \<open>A value used as a condition.\<close>

definition truthy :: "json option \<Rightarrow> bool" where
  "truthy v =
     (case v of
        None \<Rightarrow> False
      | Some JNull \<Rightarrow> False
      | Some (JBool b) \<Rightarrow> b
      | Some (JNum n) \<Rightarrow> n \<noteq> 0
      | Some (JStr t) \<Rightarrow> t \<noteq> []
      | Some (JArr xs) \<Rightarrow> True
      | Some (JObj fs) \<Rightarrow> True)"

text \<open>
  A value a caller may pass to \<open>pushData\<close> (\<open>data: any\<close>). \<open>VNonFinite\<close> is \<open>NaN\<close> or an
  infinity, \<open>VCyclic\<close> an object that reaches itself. \<open>serialize v\<close> is what the receiver
  parses from \<open>JSON.stringify(v)\<close>: the outer \<open>None\<close> is the \<open>TypeError\<close> that
  \<open>JSON.stringify\<close> throws on a \<open>BigInt\<close> or a cyclic structure, \<open>Some None\<close> is the result
  \<open>undefined\<close>. A function or \<open>undefined\<close> disappears from an object and becomes \<open>null\<close>
  in an array.
\<close>

datatype jsval = VUndefined | VNull | VBool bool | VNum int | VNonFinite | VStr string
  | VFunction | VBigInt int | VCyclic | VArr "jsval list" | VObj "(string \<times> jsval) list"

primrec serialize :: "jsval \<Rightarrow> json option option" where
  "serialize VUndefined = Some None"
| "serialize VNull = Some (Some JNull)"
| "serialize (VBool b) = Some (Some (JBool b))"
| "serialize (VNum n) = Some (Some (JNum n))"
| "serialize VNonFinite = Some (Some JNull)"
| "serialize (VStr t) = Some (Some (JStr t))"
| "serialize VFunction = Some None"
| "serialize (VBigInt n) = None"
| "serialize VCyclic = None"
| "serialize (VArr xs) =
     map_option (\<lambda>ys. Some (JArr (map (\<lambda>y. case y of None \<Rightarrow> JNull | Some j \<Rightarrow> j) ys)))
       (those (map serialize xs))"
| "serialize (VObj fs) =
     map_option (\<lambda>kvs. Some (JObj (List.map_filter (\<lambda>(k, y). map_option (Pair k) y) kvs)))
       (those (map (\<lambda>(k, y). map_option (Pair k) y) (map (map_prod id serialize) fs)))"

section \<open>Wire frames\<close>

definition INIT_frame :: "json \<Rightarrow> json" where
  "INIT_frame d = JObj [(''type'', JStr ''INIT''), (''data'', d)]"

text \<open>\<open>{ type: 'UPDATE', path, data }\<close>; a member whose value is \<open>undefined\<close> is not sent.\<close>

definition UPDATE_frame :: "string \<Rightarrow> json option \<Rightarrow> json" where
  "UPDATE_frame path d =
     JObj ([(''type'', JStr ''UPDATE''), (''path'', JStr path)]
           @ (case d of None \<Rightarrow> [] | Some v \<Rightarrow> [(''data'', v)]))"

definition SYNC_REQUEST_frame :: json where
  "SYNC_REQUEST_frame = JObj [(''type'', JStr ''SYNC_REQUEST'')]"

section \<open>The broadcast relay (\<open>src/server.ts\<close>)\<close>

datatype readyState = CONNECTING | OPEN | CLOSING | CLOSED

text \<open>
  The object \<open>state\<close>. \<open>own\<close> lists its own properties in the order of their creation (the
  position ECMAScript gives integer-like keys is not modelled; nothing below depends on
  the order). \<open>state[path] = data\<close> with the key \<open>__proto__\<close> does not create a property
  while that name resolves to the accessor of \<open>Object.prototype\<close>: the setter replaces the
  prototype when \<open>data\<close> is an object, an array or \<open>null\<close>, and does nothing otherwise.
  \<open>proto_accessor\<close> tells whether the accessor is still reached through the prototype
  chain: not after the prototype became \<open>null\<close>, or a parsed object with an own member
  \<open>__proto__\<close>.
\<close>

record relay_state =
  own :: "(string \<times> json option) list"
  proto_accessor :: bool

fun assoc_put :: "string \<Rightarrow> 'v \<Rightarrow> (string \<times> 'v) list \<Rightarrow> (string \<times> 'v) list" where
  "assoc_put k v [] = [(k, v)]"
| "assoc_put k v ((k', v') # kvs) = (if k' = k then (k, v) # kvs else (k', v') # assoc_put k v kvs)"

definition state_assign :: "relay_state \<Rightarrow> string \<Rightarrow> json option \<Rightarrow> relay_state" where
  "state_assign st path d =
     (if path = ''__proto__'' \<and> proto_accessor st
      then (case d of
              Some (JObj fs) \<Rightarrow> st\<lparr> proto_accessor := (map_of fs ''__proto__'' = None) \<rparr>
            | Some JNull \<Rightarrow> st\<lparr> proto_accessor := False \<rparr>
            | _ \<Rightarrow> st)
      else st\<lparr> own := assoc_put path d (own st) \<rparr>)"

text \<open>What a client parses from \<open>JSON.stringify(state)\<close>: the own properties that are not \<open>undefined\<close>.\<close>

definition stringify_state :: "relay_state \<Rightarrow> json" where
  "stringify_state st = JObj (List.map_filter (\<lambda>(k, v). map_option (Pair k) v) (own st))"

text \<open>
  A member of \<open>wss.clients\<close>: its \<open>readyState\<close> and the frames delivered to it so far.
  The set is a map from the identity of the socket object.
\<close>

record connection =
  conn_readyState :: readyState
  outbox :: "json list"

record relay =
  state :: relay_state
  clients :: "nat \<Rightarrow> connection option"
  relay_console :: "string list"

definition initial_state :: relay_state where
  "initial_state =
     \<lparr> own = [(''users'', Some (JArr [])), (''teams'', Some (JArr [])),
              (''tournaments'', Some (JArr [])), (''liveMatch'', Some JNull)],
       proto_accessor = True \<rparr>"

definition initial_relay :: relay where
  "initial_relay = \<lparr> state = initial_state, clients = (\<lambda>c. None), relay_console = [] \<rparr>"

text \<open>\<open>ws.send(frame)\<close> of the socket library: the frame reaches a socket that is open.\<close>

definition ws_send :: "json \<Rightarrow> connection \<Rightarrow> connection" where
  "ws_send frame c = (if conn_readyState c = OPEN then c\<lparr> outbox := outbox c @ [frame] \<rparr> else c)"

text \<open>The \<open>connection\<close> handler: socket \<open>ws\<close> has joined \<open>wss.clients\<close> in the open state.\<close>

definition on_connection :: "relay \<Rightarrow> nat \<Rightarrow> relay" where
  "on_connection r ws =
     r\<lparr> clients := (clients r)(ws \<mapsto> ws_send (INIT_frame (stringify_state (state r)))
                                        \<lparr> conn_readyState = OPEN, outbox = [] \<rparr>),
        relay_console := relay_console r @ [''Client connected''] \<rparr>"

text \<open>\<open>wss.clients.forEach(client => { if (client !== ws && client.readyState === OPEN) client.send(frame) })\<close>\<close>

definition broadcast :: "nat \<Rightarrow> json \<Rightarrow> (nat \<Rightarrow> connection option) \<Rightarrow> nat \<Rightarrow> connection option" where
  "broadcast ws frame cs =
     (\<lambda>client. case cs client of
                  None \<Rightarrow> None
                | Some c \<Rightarrow>
                    Some (if client \<noteq> ws \<and> conn_readyState c = OPEN
                          then c\<lparr> outbox := outbox c @ [frame] \<rparr> else c))"

text \<open>
  The \<open>message\<close> handler of socket \<open>ws\<close>; \<open>parsed\<close> is the result of \<open>JSON.parse\<close>. Reading
  \<open>.type\<close> of \<open>null\<close> throws inside the \<open>try\<close> block as a parse error does. The result is
  \<open>None\<close> for an \<open>UPDATE\<close> whose \<open>path\<close> is not a string: the property key such a value is
  converted to is not modelled.
\<close>

definition on_message :: "relay \<Rightarrow> nat \<Rightarrow> json option \<Rightarrow> relay option" where
  "on_message r ws parsed =
     (case parsed of
        None \<Rightarrow> Some (r\<lparr> relay_console := relay_console r @ [''Error processing message''] \<rparr>)
      | Some JNull \<Rightarrow> Some (r\<lparr> relay_console := relay_console r @ [''Error processing message''] \<rparr>)
      | Some msg \<Rightarrow>
          if get_member msg ''type'' = Some (JStr ''UPDATE'')
          then (case get_member msg ''path'' of
                  Some (JStr path) \<Rightarrow>
                    Some (r\<lparr> state := state_assign (state r) path (get_member msg ''data''),
                            clients := broadcast ws (UPDATE_frame path (get_member msg ''data''))
                                         (clients r) \<rparr>)
                | _ \<Rightarrow> None)
          else if get_member msg ''type'' = Some (JStr ''SYNC_REQUEST'')
          then Some (r\<lparr> clients := (\<lambda>client. if client = ws
                                                then map_option
                                                       (ws_send (INIT_frame (stringify_state (state r))))
                                                       (clients r client)
                                                else clients r client) \<rparr>)
          else Some r)"

section \<open>The sync transport client (\<open>src/services/cloud.ts\<close>)\<close>

text \<open>
  The module state. \<open>db\<close> tells whether \<open>initCloud\<close> has set the datastore handle
  (Backend A). \<open>socket\<close> is the module variable: \<open>None\<close> for \<open>null\<close>, otherwise the
  \<open>readyState\<close> of the current \<open>WebSocket\<close>. A callback is the number that identifies the
  function object; \<open>listeners\<close> gives the own properties of the registry object.
  \<open>timers\<close> are the pending \<open>setTimeout\<close> calls with their delay in milliseconds, \<open>sent\<close>
  the frames handed to \<open>socket.send\<close>, \<open>written\<close> the completed datastore writes,
  \<open>subscriptions\<close> the datastore subscriptions opened by \<open>onValue\<close> (numbered by \<open>fresh\<close>),
  \<open>uncaught\<close> counts errors thrown out of a timer callback, and \<open>store\<close> is the state the
  callbacks write.
\<close>

datatype timer_action = Reconnect | RetrySend string jsval

record 's cloud =
  db :: bool
  socket :: "readyState option"
  listeners :: "string \<Rightarrow> nat list option"
  timers :: "(nat \<times> timer_action) list"
  sent :: "json list"
  written :: "(string \<times> json) list"
  subscriptions :: "(nat \<times> string \<times> nat) list"
  fresh :: nat
  console :: "string list"
  uncaught :: nat
  store :: 's

text \<open>
  \<open>listeners[key]\<close>: an own property, a member inherited from \<open>Object.prototype\<close> (a
  function, or the prototype itself for \<open>__proto__\<close>; truthy, and without \<open>push\<close>,
  \<open>forEach\<close> or \<open>filter\<close>), or \<open>undefined\<close>.
\<close>

definition object_prototype_names :: "string list" where
  "object_prototype_names =
     [''constructor'', ''__defineGetter__'', ''__defineSetter__'', ''hasOwnProperty'',
      ''__lookupGetter__'', ''__lookupSetter__'', ''isPrototypeOf'', ''propertyIsEnumerable'',
      ''toString'', ''valueOf'', ''__proto__'', ''toLocaleString'']"

datatype lookup = Own "nat list" | Inherited | Absent

definition listeners_get :: "(string \<Rightarrow> nat list option) \<Rightarrow> string \<Rightarrow> lookup" where
  "listeners_get ls key =
     (case ls key of
        Some cbs \<Rightarrow> Own cbs
      | None \<Rightarrow> if key \<in> set object_prototype_names then Inherited else Absent)"

text \<open>\<open>connectSocket\<close>: a new socket in the connecting state replaces the module variable.\<close>

definition connectSocket :: "'s cloud \<Rightarrow> 's cloud" where
  "connectSocket t = t\<lparr> socket := Some CONNECTING \<rparr>"

definition initSocket :: "'s cloud \<Rightarrow> 's cloud" where
  "initSocket t = (if socket t = None then connectSocket t else t)"

text \<open>\<open>socket.onopen\<close>, fired when the current socket opens.\<close>

definition socket_onopen :: "'s cloud \<Rightarrow> 's cloud" where
  "socket_onopen t =
     t\<lparr> socket := Some OPEN,
        console := console t @ [''Connected to WebSocket server''],
        sent := sent t @ [SYNC_REQUEST_frame] \<rparr>"

text \<open>\<open>socket.onclose\<close>, fired when the current socket closes.\<close>

definition socket_onclose :: "'s cloud \<Rightarrow> 's cloud" where
  "socket_onclose t =
     t\<lparr> socket := Some CLOSED,
        console := console t @ [''Disconnected from WebSocket server''],
        timers := timers t @ [(3000, Reconnect)] \<rparr>"

text \<open>
  \<open>cbs.forEach(cb => cb(v))\<close>. \<open>run cb v s\<close> is the store after callback \<open>cb\<close> ran on \<open>v\<close>,
  \<open>None\<close> when the callback throws; the exception leaves the loop.
\<close>

fun call_all ::
  "(nat \<Rightarrow> json option \<Rightarrow> 's \<Rightarrow> 's option) \<Rightarrow> nat list \<Rightarrow> json option \<Rightarrow> 's \<Rightarrow> 's \<times> bool" where
  "call_all run [] v s = (s, True)"
| "call_all run (cb # cbs) v s =
     (case run cb v s of None \<Rightarrow> (s, False) | Some s' \<Rightarrow> call_all run cbs v s')"

text \<open>\<open>if (listeners[key]) listeners[key].forEach(cb => cb(v))\<close>; \<open>False\<close> when it throws.\<close>

definition notify ::
  "(nat \<Rightarrow> json option \<Rightarrow> 's \<Rightarrow> 's option) \<Rightarrow> (string \<Rightarrow> nat list option) \<Rightarrow> string \<Rightarrow> json option
     \<Rightarrow> 's \<Rightarrow> 's \<times> bool" where
  "notify run ls key v s =
     (case listeners_get ls key of
        Absent \<Rightarrow> (s, True)
      | Inherited \<Rightarrow> (s, False)
      | Own cbs \<Rightarrow> call_all run cbs v s)"

text \<open>\<open>Object.keys(data).forEach(key => ...)\<close> over the members of the \<open>INIT\<close> snapshot.\<close>

fun notify_all ::
  "(nat \<Rightarrow> json option \<Rightarrow> 's \<Rightarrow> 's option) \<Rightarrow> (string \<Rightarrow> nat list option) \<Rightarrow> (string \<times> json) list
     \<Rightarrow> string list \<Rightarrow> 's \<Rightarrow> 's \<times> bool" where
  "notify_all run ls fs [] s = (s, True)"
| "notify_all run ls fs (key # keys) s =
     (case notify run ls key (map_of fs key) s of
        (s', False) \<Rightarrow> (s', False)
      | (s', True) \<Rightarrow> notify_all run ls fs keys s')"

definition caught :: "'s cloud \<Rightarrow> 's \<times> bool \<Rightarrow> 's cloud" where
  "caught t r =
     (if snd r then t\<lparr> store := fst r \<rparr>
      else t\<lparr> store := fst r, console := console t @ [''Error parsing WebSocket message''] \<rparr>)"

text \<open>
  \<open>socket.onmessage\<close>; \<open>parsed\<close> is the result of \<open>JSON.parse(event.data)\<close>. Everything
  runs inside \<open>try\<close>: a parse error, the \<open>TypeError\<close> of reading a member of \<open>null\<close> or of
  \<open>Object.keys\<close> on \<open>null\<close> or \<open>undefined\<close>, and an exception of a callback are logged. The
  result is \<open>None\<close> where the keys are not modelled: an \<open>INIT\<close> whose \<open>data\<close> is an array or
  a string (index keys) and an \<open>UPDATE\<close> whose \<open>path\<close> is not a string.
\<close>

definition socket_onmessage ::
  "(nat \<Rightarrow> json option \<Rightarrow> 's \<Rightarrow> 's option) \<Rightarrow> 's cloud \<Rightarrow> json option \<Rightarrow> 's cloud option" where
  "socket_onmessage run t parsed =
     (case parsed of
        None \<Rightarrow> Some (caught t (store t, False))
      | Some JNull \<Rightarrow> Some (caught t (store t, False))
      | Some msg \<Rightarrow>
          if get_member msg ''type'' = Some (JStr ''INIT'')
          then (case get_member msg ''data'' of
                  None \<Rightarrow> Some (caught t (store t, False))
                | Some JNull \<Rightarrow> Some (caught t (store t, False))
                | Some (JObj fs) \<Rightarrow>
                    Some (caught t (notify_all run (listeners t) fs (map fst fs) (store t)))
                | Some (JBool b) \<Rightarrow> Some t
                | Some (JNum n) \<Rightarrow> Some t
                | Some (JStr x) \<Rightarrow> None
                | Some (JArr xs) \<Rightarrow> None)
          else if get_member msg ''type'' = Some (JStr ''UPDATE'')
          then (case get_member msg ''path'' of
                  Some (JStr path) \<Rightarrow>
                    Some (caught t (notify run (listeners t) path (get_member msg ''data'') (store t)))
                | _ \<Rightarrow> None)
          else Some t)"

text \<open>
  \<open>syncData(path, onData)\<close>. \<open>None\<close> is the \<open>TypeError\<close> of \<open>listeners[path].push\<close> on an
  inherited member. The function returned is the handle of the datastore subscription
  (Backend A), or the closure that filters the listener list of \<open>path\<close>. The calls into
  the datastore library (\<open>ref\<close>, \<open>onValue\<close>) are taken to accept the path.
\<close>

datatype unsubscribe = DatastoreUnsubscribe nat | RemoveListener string nat

definition syncData :: "'s cloud \<Rightarrow> string \<Rightarrow> nat \<Rightarrow> ('s cloud \<times> unsubscribe) option" where
  "syncData t path onData =
     (case listeners_get (listeners t) path of
        Inherited \<Rightarrow> None
      | found \<Rightarrow>
          (let registered =
                 t\<lparr> listeners := (listeners t)
                       (path \<mapsto> (case found of Own cbs \<Rightarrow> cbs | _ \<Rightarrow> []) @ [onData]) \<rparr>
           in if db t
              then Some (registered\<lparr> subscriptions := subscriptions t @ [(fresh t, path, onData)],
                                     fresh := fresh t + 1 \<rparr>,
                         DatastoreUnsubscribe (fresh t))
              else Some (initSocket registered, RemoveListener path onData)))"

text \<open>
  Calling the function \<open>syncData\<close> returned. The datastore handle belongs to the
  datastore library, which cannot reach the module-private \<open>listeners\<close>; it removes its
  own subscription.
\<close>

definition call_unsubscribe :: "'s cloud \<Rightarrow> unsubscribe \<Rightarrow> 's cloud option" where
  "call_unsubscribe t u =
     (case u of
        DatastoreUnsubscribe h \<Rightarrow>
          Some (t\<lparr> subscriptions := filter (\<lambda>sub. fst sub \<noteq> h) (subscriptions t) \<rparr>)
      | RemoveListener path onData \<Rightarrow>
          (case listeners_get (listeners t) path of
             Own cbs \<Rightarrow> Some (t\<lparr> listeners := (listeners t)(path \<mapsto> filter (\<lambda>cb. cb \<noteq> onData) cbs) \<rparr>)
           | _ \<Rightarrow> None))"

text \<open>
  \<open>pushData(path, data)\<close> is an \<open>async\<close> function: it returns a promise, which is rejected
  when the body throws. \<open>set_ok\<close> tells whether the datastore accepts the write (\<open>ref\<close> is
  taken to accept the path).
\<close>

datatype promise = Fulfilled | Rejected

definition pushData :: "bool \<Rightarrow> 's cloud \<Rightarrow> string \<Rightarrow> jsval \<Rightarrow> 's cloud \<times> promise" where
  "pushData set_ok t path d =
     (if db t
      then (case serialize d of
              Some (Some cleanData) \<Rightarrow>
                if set_ok then (t\<lparr> written := written t @ [(path, cleanData)] \<rparr>, Fulfilled)
                else (t\<lparr> console := console t @ [''Sync Error:''] \<rparr>, Fulfilled)
            | _ \<Rightarrow> (t\<lparr> console := console t @ [''Sync Error:''] \<rparr>, Fulfilled))
      else if socket t = Some OPEN
      then (case serialize (VObj [(''type'', VStr ''UPDATE''), (''path'', VStr path), (''data'', d)]) of
              Some (Some frame) \<Rightarrow> (t\<lparr> sent := sent t @ [frame] \<rparr>, Fulfilled)
            | _ \<Rightarrow> (t, Rejected))
      else if socket t \<noteq> None
      then (t\<lparr> timers := timers t @ [(1000, RetrySend path d)] \<rparr>, Fulfilled)
      else (t, Fulfilled))"

text \<open>The callback of a timer.\<close>

definition run_timer :: "'s cloud \<Rightarrow> timer_action \<Rightarrow> 's cloud" where
  "run_timer t a =
     (case a of
        Reconnect \<Rightarrow> connectSocket t
      | RetrySend path d \<Rightarrow>
          if socket t = Some OPEN
          then (case serialize (VObj [(''type'', VStr ''UPDATE''), (''path'', VStr path), (''data'', d)]) of
                  Some (Some frame) \<Rightarrow> t\<lparr> sent := sent t @ [frame] \<rparr>
                | _ \<Rightarrow> t\<lparr> uncaught := uncaught t + 1 \<rparr>)
          else t)"

text \<open>The \<open>i\<close>-th pending timer expires: it leaves the list and its callback runs.\<close>

definition fire_timer :: "'s cloud \<Rightarrow> nat \<Rightarrow> 's cloud" where
  "fire_timer t i =
     (if i < length (timers t)
      then run_timer (t\<lparr> timers := take i (timers t) @ drop (Suc i) (timers t) \<rparr>) (snd (timers t ! i))
      else t)"

definition new_cloud :: "bool \<Rightarrow> 's \<Rightarrow> 's cloud" where
  "new_cloud has_db s =
     \<lparr> db = has_db, socket = None, listeners = (\<lambda>key. None), timers = [], sent = [], written = [],
       subscriptions = [], fresh = 0, console = [], uncaught = 0, store = s \<rparr>"

text \<open>
  \<open>initCloud(config, organizationId)\<close>. The first argument tells how the call goes: the
  configuration has no \<open>databaseURL\<close>, the datastore library (or reading the
  configuration) throws, or the library returns a handle, which is stored in \<open>db\<close>.
  \<open>orgId\<close> only prefixes the paths handed to the datastore and is not part of the state
  here.
\<close>

datatype init_step = MissingDatabaseURL | InitThrows | InitReturns

definition initCloud :: "init_step \<Rightarrow> 's cloud \<Rightarrow> 's cloud \<times> bool" where
  "initCloud i t =
     (case i of
        MissingDatabaseURL \<Rightarrow> (t\<lparr> console := console t @ [''Missing databaseURL in config''] \<rparr>, False)
      | InitThrows \<Rightarrow> (t\<lparr> console := console t @ [''Firebase Init Error:''] \<rparr>, False)
      | InitReturns \<Rightarrow> (t\<lparr> db := True \<rparr>, True))"


section \<open>The sync transport of the compact App (\<open>src/src/services/cloud.ts\<close>)\<close>



section \<open>The application state store\<close>

text \<open>
  The four slices, holding the values as they arrive. In both components the callback
  of \<open>liveMatch\<close> is numbered 0, that of \<open>teams\<close> 1, that of \<open>tournaments\<close> 2 and that of
  \<open>users\<close> 3.
\<close>

record app_store =
  users_slice :: json
  teams_slice :: json
  tournaments_slice :: json
  liveMatch_slice :: "json option"

definition user_json :: "string \<Rightarrow> string \<Rightarrow> string \<Rightarrow> string \<Rightarrow> json" where
  "user_json i u p r =
     JObj [(''id'', JStr i), (''username'', JStr u), (''password'', JStr p), (''role'', JStr r)]"

subsection \<open>The compact App component\<close>

definition INITIAL_USERS :: json where
  "INITIAL_USERS = JArr [user_json ''admin'' ''admin'' ''123'' ''ADMIN'',
                         user_json ''tv'' ''tv'' ''123'' ''VIEWER'']"

definition App_initial_store :: app_store where
  "App_initial_store =
     \<lparr> users_slice = INITIAL_USERS, teams_slice = JArr [], tournaments_slice = JArr [],
       liveMatch_slice = Some JNull \<rparr>"

definition App_callbacks :: "nat \<Rightarrow> json option \<Rightarrow> app_store \<Rightarrow> app_store option" where
  "App_callbacks cb d s =
     Some (if cb = 0 then s\<lparr> liveMatch_slice := d \<rparr>
           else if cb = 1 then (case d of Some v \<Rightarrow> if truthy d then s\<lparr> teams_slice := v \<rparr> else s
                                | None \<Rightarrow> s)
           else if cb = 2 then (case d of Some v \<Rightarrow> if truthy d then s\<lparr> tournaments_slice := v \<rparr> else s
                                | None \<Rightarrow> s)
           else if cb = 3 then (case d of Some v \<Rightarrow> if truthy d then s\<lparr> users_slice := v \<rparr>
                                                     else s\<lparr> users_slice := INITIAL_USERS \<rparr>
                                | None \<Rightarrow> s\<lparr> users_slice := INITIAL_USERS \<rparr>)
           else s)"

subsection \<open>The tournament console\<close>





definition non_empty :: "json \<Rightarrow> bool" where
  "non_empty v = (case v of JArr xs \<Rightarrow> xs \<noteq> [] | _ \<Rightarrow> False)"

section \<open>The sets invariant of the data model\<close>

text \<open>
  \<open>entry_inv\<close>: the entry \<open>sets[currentSet - 1]\<close> exists and carries the scoreboard of the
  match state. \<open>sets_inv\<close>: moreover that entry is the last element of \<open>sets\<close>.
\<close>

definition entry_inv :: "LiveMatchState \<Rightarrow> bool" where
  "entry_inv m =
     (1 \<le> currentSet m \<and> currentSet m \<le> int (length (sets m))
      \<and> MatchSet.scoreA (sets m ! nat (currentSet m - 1)) = scoreA m
      \<and> MatchSet.scoreB (sets m ! nat (currentSet m - 1)) = scoreB m)"

definition sets_inv :: "LiveMatchState \<Rightarrow> bool" where
  "sets_inv m = (entry_inv m \<and> currentSet m = int (length (sets m)))"

text \<open>
  The two ways \<open>sets\<close> may change in one step: the entry at \<open>currentSet - 1\<close> is rewritten
  and nothing else, or one entry is appended and becomes the entry at the new
  \<open>currentSet - 1\<close>.
\<close>

definition written_in_place :: "LiveMatchState \<Rightarrow> LiveMatchState \<Rightarrow> bool" where
  "written_in_place prev m =
     (currentSet m = currentSet prev
      \<and> sets m = (sets prev)[nat (currentSet prev - 1) := sets m ! nat (currentSet prev - 1)])"

definition appended :: "LiveMatchState \<Rightarrow> LiveMatchState \<Rightarrow> bool" where
  "appended prev m =
     (currentSet m = currentSet prev + 1 \<and> sets m = sets prev @ [last (sets m)]
      \<and> currentSet m = int (length (sets m)))"

text \<open>
  What an outcome must satisfy. A handler that returns or throws stores nothing, so the
  slice keeps its value; \<open>OutsideModel\<close> is excluded.
\<close>

definition keeps_entry :: "LiveMatchState \<Rightarrow> outcome \<Rightarrow> bool" where
  "keeps_entry prev r =
     (case r of
        Returned \<Rightarrow> True
      | Thrown \<Rightarrow> True
      | OutsideModel \<Rightarrow> False
      | Updated m \<Rightarrow>
          entry_inv m \<and> written_in_place prev m \<and> (if sets_inv prev then sets_inv m else True))"

definition keeps_last :: "LiveMatchState \<Rightarrow> outcome \<Rightarrow> bool" where
  "keeps_last prev r =
     (case r of
        Returned \<Rightarrow> True
      | Thrown \<Rightarrow> True
      | OutsideModel \<Rightarrow> False
      | Updated m \<Rightarrow> sets_inv m \<and> (written_in_place prev m \<or> appended prev m))"

definition starts_sets_inv :: "outcome \<Rightarrow> bool" where
  "starts_sets_inv r =
     (case r of Returned \<Rightarrow> True | Thrown \<Rightarrow> True | OutsideModel \<Rightarrow> False
      | Updated m \<Rightarrow> sets_inv m)"

text \<open>
  \<open>stores\<close>: the handler did replace the \<open>liveMatch\<close> slice. \<open>has_fixture\<close>: the lookup
  \<open>activeTournament.fixtures.find(f => f.id === liveMatch.matchId)\<close> of the console's
  handlers finds a fixture.
\<close>

definition stores :: "outcome \<Rightarrow> bool" where
  "stores r = (case r of Updated m \<Rightarrow> True | _ \<Rightarrow> False)"

definition has_fixture :: "Tournament option \<Rightarrow> LiveMatchState \<Rightarrow> bool" where
  "has_fixture activeTournament lm =
     (case activeTournament of
        None \<Rightarrow> False
      | Some t \<Rightarrow> find (\<lambda>f. fixture_id f = matchId lm) (fixtures t) \<noteq> None)"

section \<open>Concrete data\<close>

text \<open>
  \<open>createEmptyPlayer\<close> and the team object of \<open>handleAddTeam\<close> (twelve numbered players),
  as the tournament console builds them; a fixture, a tournament and a match state in
  which side A has served one ace.
\<close>

definition createEmptyPlayer :: "string \<Rightarrow> int \<Rightarrow> Player" where
  "createEmptyPlayer i n =
     \<lparr> player_id = i, player_name = ''Jugador '' @ show_int n, number = n,
       player_role = OutsideHitter, isCaptain = False,
       stats = \<lparr> points = 0, aces = 0, blocks = 0, errors = 0, matchesPlayed = 0, mvps = 0,
                 yellowCards = 0, redCards = 0 \<rparr>,
       profile = \<lparr> bio = [], height = 180, weight = 75, spikeReach = None, blockReach = None,
                   birthDate = None, photoUrl = [], achievements = [], instagram = None \<rparr> \<rparr>"

definition newTeam :: "string \<Rightarrow> string \<Rightarrow> string \<Rightarrow> string \<Rightarrow> Team" where
  "newTeam newTeamId newTeamName newTeamCoach newTeamLogo =
     \<lparr> team_id = newTeamId, team_name = newTeamName, color = ''#1e3a8a'',
       team_logoUrl = Some newTeamLogo,
       players = map (\<lambda>i. createEmptyPlayer (newTeamId @ ''-p'' @ show_int (int i + 1)) (int i + 1))
                     [0 ..< 12],
       coachName = (if newTeamCoach = [] then ''Sin entrenador'' else newTeamCoach) \<rparr>"

definition sampleFixture :: MatchFixture where
  "sampleFixture =
     \<lparr> fixture_id = ''fix-0'', fixture_date = ''2026-01-10'', teamAId = ''t-1'', teamBId = ''t-2'',
       fixture_group = ''Grupo Unico'', fixture_status = scheduled, winnerId = None,
       resultString = None \<rparr>"

definition sampleTournament :: Tournament where
  "sampleTournament =
     \<lparr> tournament_id = ''tourney-1'', ownerId = ''admin'', tournament_name = ''Liga'',
       tournament_logoUrl = None, startDate = ''2026-01-01'', endDate = ''2026-01-31'',
       teams = [newTeam ''t-1'' ''Norte'' [] [], newTeam ''t-2'' ''Sur'' [] []],
       groups = [(''Grupo Unico'', [''t-1'', ''t-2''])],
       fixtures = [sampleFixture] \<rparr>"

definition sampleConfig :: MatchConfig where
  "sampleConfig = \<lparr> maxSets = 3, pointsPerSet = 25, tieBreakPoints = 15 \<rparr>"

definition sampleMatch :: LiveMatchState where
  "sampleMatch =
     \<lparr> matchId = ''fix-0'', config = sampleConfig, status = playing, currentSet = 1,
       sets = [\<lparr> MatchSet.scoreA = 1, MatchSet.scoreB = 0,
                 history = [\<lparr> log_teamId = ''t-1'', playerId = None, point_type = ace,
                              scoreSnapshot = ''1-0'' \<rparr>],
                 durationMinutes = 0 \<rparr>],
       rotationA = take 6 (players (newTeam ''t-1'' ''Norte'' [] [])),
       rotationB = take 6 (players (newTeam ''t-2'' ''Sur'' [] [])),
       benchA = drop 6 (players (newTeam ''t-1'' ''Norte'' [] [])),
       benchB = drop 6 (players (newTeam ''t-2'' ''Sur'' [] [])),
       servingTeamId = ''t-1'', scoreA = 1, scoreB = 0, timeoutsA = 0, timeoutsB = 0,
       substitutionsA = 0, substitutionsB = 0, requests = [],
       showLeaderboard = None, showStats = None, showScoreboard = None \<rparr>"

text \<open>
  The console's match while its second set is being played (8-10 after a first set won
  25-20).
\<close>

definition secondSetMatch :: LiveMatchState where
  "secondSetMatch =
     sampleMatch\<lparr> currentSet := 2, scoreA := 8, scoreB := 10,
       sets := [\<lparr> MatchSet.scoreA = 25, MatchSet.scoreB = 20, history = [], durationMinutes = 0 \<rparr>,
                \<lparr> MatchSet.scoreA = 8, MatchSet.scoreB = 10, history = [], durationMinutes = 0 \<rparr>] \<rparr>"

section \<open>Transport scenarios\<close>

text \<open>
  The listener list of \<open>path\<close> after \<open>listeners[path].push(onData)\<close>, and one failed
  reconnection: the socket closes and the timer it scheduled expires.
\<close>

definition registered :: "'s cloud \<Rightarrow> string \<Rightarrow> nat \<Rightarrow> string \<Rightarrow> nat list option" where
  "registered t path onData =
     (listeners t)(path \<mapsto> (case listeners t path of None \<Rightarrow> [] | Some cbs \<Rightarrow> cbs) @ [onData])"

definition reconnect_cycle :: "'s cloud \<Rightarrow> 's cloud" where
  "reconnect_cycle t = fire_timer (socket_onclose t) (length (timers t))"



text \<open>
  A store that records which callbacks ran, three subscriptions on it (two of them on
  \<open>users\<close>), a client whose socket is connecting, a value with a function member, a
  published match value, a relay with two open connections, and an \<open>UPDATE\<close> frame for the
  path \<open>__proto__\<close>.
\<close>

definition trace_run :: "nat \<Rightarrow> json option \<Rightarrow> nat list \<Rightarrow> nat list option" where
  "trace_run cb v s = Some (s @ [cb])"

definition three_listeners :: "nat list cloud option" where
  "three_listeners =
     Option.bind (syncData (new_cloud False []) ''users'' 3) (\<lambda>r0.
     Option.bind (syncData (fst r0) ''users'' 9) (\<lambda>r1.
     map_option fst (syncData (fst r1) ''teams'' 1)))"

definition connecting_client :: "app_store cloud" where
  "connecting_client = connectSocket (new_cloud False App_initial_store)"

definition sample_update :: jsval where
  "sample_update = VObj [(''matchId'', VStr ''m1''), (''scoreA'', VNum 1), (''onChange'', VFunction)]"

definition match_update :: json where
  "match_update = JObj [(''matchId'', JStr ''m1''), (''scoreA'', JNum 1)]"

definition two_clients :: relay where
  "two_clients = on_connection (on_connection initial_relay 0) 1"

definition proto_frame :: json where
  "proto_frame = JObj [(''type'', JStr ''UPDATE''), (''path'', JStr ''__proto__''), (''data'', JNum 5)]"

section \<open>Properties\<close>

subsection \<open>The scoreboard and the sets array\<close>

lemma entry_inv_index:
  "entry_inv m \<Longrightarrow> nat (currentSet m - 1) < length (sets m) \<and> 0 \<le> currentSet m - 1
     \<and> currentSet m - 1 < int (length (sets m))"
  by (auto simp: entry_inv_def)

lemma written_in_place_last:
  assumes "written_in_place prev m" "entry_inv m" "sets_inv prev"
  shows "sets_inv m"
proof -
  have "length (sets m) = length (sets prev)"
    using assms(1) by (metis length_list_update written_in_place_def)
  then show ?thesis
    using assms by (simp add: sets_inv_def written_in_place_def)
qed

lemma keeps_entryI:
  assumes "entry_inv m" "written_in_place prev m"
  shows "keeps_entry prev (Updated m)"
  using assms written_in_place_last [of prev m] by (simp add: keeps_entry_def)

lemma handlePoint_updater_keeps:
  assumes "entry_inv prev"
  shows "\<exists>m. handlePoint_updater fixture teamId ty pl prev = Some m \<and> entry_inv m
            \<and> written_in_place prev m"
proof (cases "status prev = finished")
  case True
  then show ?thesis using assms
    by (simp add: handlePoint_updater_def written_in_place_def)
next
  case False
  note idx = entry_inv_index [OF assms]
  obtain a b ra rb sv where tup:
    "(if ty = yellow_card
      then (scoreA prev, scoreB prev, rotationA prev, rotationB prev, servingTeamId prev)
      else if ty = red_card
      then (if teamId = teamAId fixture then pointToB fixture prev else pointToA fixture prev)
      else (if teamId = teamAId fixture then pointToA fixture prev else pointToB fixture prev))
     = (a, b, ra, rb, sv)"
    by (metis prod_cases5)
  show ?thesis
    using False idx assms
    by (simp add: handlePoint_updater_def Let_def tup js_index_def js_assign_def
        entry_inv_def written_in_place_def)
qed

lemma handlePoint_keeps:
  assumes "entry_inv prev"
  shows "keeps_entry prev (handlePoint (Some prev) activeTournament teamId ty pl)"
proof (cases activeTournament)
  case None
  then show ?thesis by (simp add: handlePoint_def keeps_entry_def)
next
  case (Some t)
  show ?thesis
  proof (cases "find (\<lambda>f. fixture_id f = matchId prev) (fixtures t)")
    case None
    then show ?thesis using Some by (simp add: handlePoint_def keeps_entry_def)
  next
    case (Some fixture)
    obtain m where "handlePoint_updater fixture teamId ty pl prev = Some m" "entry_inv m"
      "written_in_place prev m"
      using handlePoint_updater_keeps [OF assms] by blast
    then show ?thesis using Some \<open>activeTournament = Some t\<close> keeps_entryI [of m prev]
      by (simp add: handlePoint_def)
  qed
qed

lemma subtractPoint_updater_keeps:
  assumes "entry_inv prev"
  shows "\<exists>m. subtractPoint_updater isTeamA prev = Some m \<and> entry_inv m
            \<and> written_in_place prev m"
  using assms entry_inv_index [OF assms]
  by (simp add: subtractPoint_updater_def subtractPoint_write_def Let_def js_index_def js_assign_def
        entry_inv_def written_in_place_def)

lemma handleSubtractPoint_keeps:
  assumes "entry_inv prev"
  shows "keeps_entry prev (handleSubtractPoint (Some prev) activeTournament isAdmin teamId)"
proof (cases activeTournament)
  case None
  then show ?thesis by (simp add: handleSubtractPoint_def keeps_entry_def)
next
  case (Some t)
  show ?thesis
  proof (cases "find (\<lambda>f. fixture_id f = matchId prev) (fixtures t)")
    case None
    then show ?thesis using Some by (simp add: handleSubtractPoint_def keeps_entry_def)
  next
    case (Some fixture)
    obtain m where "subtractPoint_updater (teamId = teamAId fixture) prev = Some m" "entry_inv m"
      "written_in_place prev m"
      using subtractPoint_updater_keeps [OF assms] by blast
    then show ?thesis using Some \<open>activeTournament = Some t\<close> keeps_entryI [of m prev]
      by (simp add: handleSubtractPoint_def keeps_entry_def)
  qed
qed

lemma App_handlePoint_shape:
  assumes "entry_inv prev"
  shows "App_handlePoint teamsState (Some prev) teamId ty pl = Returned
         \<or> (\<exists>m. App_handlePoint teamsState (Some prev) teamId ty pl = Updated m \<and> entry_inv m
                \<and> written_in_place prev m)"
  using assms entry_inv_index [OF assms]
  by (simp add: App_handlePoint_def Let_def js_index_def entry_inv_def written_in_place_def)

lemma App_handlePoint_keeps:
  assumes "entry_inv prev"
  shows "keeps_entry prev (App_handlePoint teamsState (Some prev) teamId ty pl)"
  using App_handlePoint_shape [OF assms, of teamsState teamId ty pl] keeps_entryI [of _ prev]
  by (auto simp: keeps_entry_def)

lemma App_handleNextSet_keeps:
  assumes "sets_inv prev"
  shows "keeps_last prev (App_handleNextSet (Some prev))"
  using assms
  by (auto simp add: App_handleNextSet_def keeps_last_def
        entry_inv_def sets_inv_def written_in_place_def appended_def emptySet_def nth_append)

lemma padSets_in_range: "setIndex < int (length ss) \<Longrightarrow> padSets ss setIndex = ss"
  by (simp add: padSets_def)

lemma handleStartNextSet_keeps:
  assumes "sets_inv prev"
  shows "keeps_last prev (handleStartNextSet (Some prev) activeTournament)"
  using assms
  by (cases activeTournament)
     (auto simp add: handleStartNextSet_def handleSetOperation_def handleSetOperation_updater_def
        padSets_in_range Let_def keeps_last_def
        entry_inv_def sets_inv_def written_in_place_def appended_def emptySet_def nth_append)

lemma startMatch_starts: "starts_sets_inv (startMatch teamsState fixture)"
  by (simp add: startMatch_def starts_sets_inv_def sets_inv_def entry_inv_def emptySet_def
      split: option.splits)

lemma confirmStartMatch_starts: "starts_sets_inv (confirmStartMatch activeTournament modal cfg)"
  by (simp add: confirmStartMatch_def starts_sets_inv_def sets_inv_def entry_inv_def emptySet_def
      split: option.splits)

lemma handlePoint_stores:
  assumes "entry_inv prev" "has_fixture activeTournament prev"
  shows "stores (handlePoint (Some prev) activeTournament teamId ty pl)"
proof -
  obtain t fixture where t: "activeTournament = Some t"
    and f: "find (\<lambda>f. fixture_id f = matchId prev) (fixtures t) = Some fixture"
    using assms(2) by (auto simp: has_fixture_def split: option.splits)
  obtain m where "handlePoint_updater fixture teamId ty pl prev = Some m"
    using handlePoint_updater_keeps [OF assms(1)] by blast
  then show ?thesis using t f by (simp add: handlePoint_def stores_def)
qed

lemma handleSubtractPoint_stores:
  assumes "entry_inv prev" "has_fixture activeTournament prev"
  shows "if isAdmin then stores (handleSubtractPoint (Some prev) activeTournament isAdmin teamId)
         else handleSubtractPoint (Some prev) activeTournament isAdmin teamId = Returned"
proof -
  obtain t fixture where t: "activeTournament = Some t"
    and f: "find (\<lambda>f. fixture_id f = matchId prev) (fixtures t) = Some fixture"
    using assms(2) by (auto simp: has_fixture_def split: option.splits)
  obtain m where "subtractPoint_updater (teamId = teamAId fixture) prev = Some m"
    using subtractPoint_updater_keeps [OF assms(1)] by blast
  then show ?thesis using t f by (simp add: handleSubtractPoint_def stores_def)
qed

lemma App_handlePoint_stores:
  assumes "entry_inv prev"
  shows "if status prev = finished \<or> status prev = finished_set
         then App_handlePoint teamsState (Some prev) teamId ty pl = Returned
         else stores (App_handlePoint teamsState (Some prev) teamId ty pl)"
  using assms entry_inv_index [OF assms]
  by (simp add: App_handlePoint_def Let_def js_index_def stores_def)

lemma App_handleNextSet_stores: "stores (App_handleNextSet (Some prev))"
  by (simp add: App_handleNextSet_def stores_def)

lemma handleStartNextSet_stores:
  "if activeTournament = None then handleStartNextSet (Some prev) activeTournament = Returned
   else stores (handleStartNextSet (Some prev) activeTournament)"
  by (cases activeTournament)
     (auto simp: handleStartNextSet_def handleSetOperation_def handleSetOperation_updater_def
        Let_def stores_def)

text \<open>
  Claim C3. Both start handlers store a state in which \<open>sets[currentSet - 1]\<close> is the last
  entry of \<open>sets\<close> and carries the scoreboard (\<open>sets_inv\<close>). From a state whose entry
  \<open>sets[currentSet - 1]\<close> exists and carries the scoreboard (\<open>entry_inv\<close>), awarding a point
  (in either component) and subtracting a point store a state with the same property,
  rewrite only that entry, and keep it the last entry if it was. From a state satisfying
  \<open>sets_inv\<close>, starting the next set (in either component) stores a state satisfying
  \<open>sets_inv\<close> again, and \<open>sets\<close> either keeps its length or gains exactly one entry, which
  is the entry at the new \<open>currentSet - 1\<close>. These handlers do store a state: the console's
  point handlers whenever the fixture of the match is found (subtracting only for an
  administrator), the compact component's point handler unless the match or the set is
  finished, the next-set handlers always (the console's with an active tournament).
\<close>

theorem scoreboard_sets_invariant:
  assumes "entry_inv prev"
  shows "keeps_entry prev (handlePoint (Some prev) activeTournament teamId ty pl)
       \<and> keeps_entry prev (App_handlePoint teamsState (Some prev) teamId ty pl)
       \<and> keeps_entry prev (handleSubtractPoint (Some prev) activeTournament isAdmin teamId)
       \<and> (if sets_inv prev
           then keeps_last prev (App_handleNextSet (Some prev))
              \<and> keeps_last prev (handleStartNextSet (Some prev) activeTournament)
           else True)
       \<and> starts_sets_inv (startMatch teamsState fixture)
       \<and> starts_sets_inv (confirmStartMatch activeTournament modal cfg)
       \<and> (if has_fixture activeTournament prev
           then stores (handlePoint (Some prev) activeTournament teamId ty pl)
              \<and> (if isAdmin
                  then stores (handleSubtractPoint (Some prev) activeTournament isAdmin teamId)
                  else handleSubtractPoint (Some prev) activeTournament isAdmin teamId = Returned)
           else True)
       \<and> (if status prev = finished \<or> status prev = finished_set
           then App_handlePoint teamsState (Some prev) teamId ty pl = Returned
           else stores (App_handlePoint teamsState (Some prev) teamId ty pl))
       \<and> stores (App_handleNextSet (Some prev))
       \<and> (if activeTournament = None
           then handleStartNextSet (Some prev) activeTournament = Returned
           else stores (handleStartNextSet (Some prev) activeTournament))"
proof -
  have keeps: "keeps_entry prev (handlePoint (Some prev) activeTournament teamId ty pl)
       \<and> keeps_entry prev (App_handlePoint teamsState (Some prev) teamId ty pl)
       \<and> keeps_entry prev (handleSubtractPoint (Some prev) activeTournament isAdmin teamId)"
    using assms handlePoint_keeps handleSubtractPoint_keeps App_handlePoint_keeps by simp
  have nexts: "if sets_inv prev
           then keeps_last prev (App_handleNextSet (Some prev))
              \<and> keeps_last prev (handleStartNextSet (Some prev) activeTournament)
           else True"
    using App_handleNextSet_keeps handleStartNextSet_keeps by simp
  have starts: "starts_sets_inv (startMatch teamsState fixture)
       \<and> starts_sets_inv (confirmStartMatch activeTournament modal cfg)"
    using startMatch_starts confirmStartMatch_starts by simp
  have console: "if has_fixture activeTournament prev
           then stores (handlePoint (Some prev) activeTournament teamId ty pl)
              \<and> (if isAdmin
                  then stores (handleSubtractPoint (Some prev) activeTournament isAdmin teamId)
                  else handleSubtractPoint (Some prev) activeTournament isAdmin teamId = Returned)
           else True"
    using handlePoint_stores [OF assms] handleSubtractPoint_stores [OF assms, of activeTournament]
    by simp
  show ?thesis
    using keeps nexts starts console App_handlePoint_stores [OF assms]
      App_handleNextSet_stores handleStartNextSet_stores
    by blast
qed

theorem scoreboard_sets_invariant_witness:
  "entry_inv sampleMatch \<and> sets_inv sampleMatch
   \<and> keeps_entry sampleMatch (handlePoint (Some sampleMatch) (Some sampleTournament) ''t-1'' ace None)
   \<and> keeps_entry sampleMatch
       (App_handlePoint (teams sampleTournament) (Some sampleMatch) ''t-2'' attack (Some ''t-2-p3''))
   \<and> keeps_entry sampleMatch (handleSubtractPoint (Some sampleMatch) (Some sampleTournament) True ''t-1'')
   \<and> keeps_last sampleMatch (App_handleNextSet (Some sampleMatch))
   \<and> keeps_last sampleMatch (handleStartNextSet (Some sampleMatch) (Some sampleTournament))
   \<and> starts_sets_inv (startMatch (teams sampleTournament) sampleFixture)
   \<and> starts_sets_inv (confirmStartMatch (Some sampleTournament) (Some ''fix-0'') sampleConfig)
   \<and> has_fixture (Some sampleTournament) sampleMatch
   \<and> stores (handlePoint (Some sampleMatch) (Some sampleTournament) ''t-1'' ace None)
   \<and> stores (handleSubtractPoint (Some sampleMatch) (Some sampleTournament) True ''t-1'')
   \<and> (case handlePoint (Some sampleMatch) (Some sampleTournament) ''t-1'' ace None of
         Updated m \<Rightarrow> scoreA m = 2 \<and> MatchSet.scoreA (sets m ! 0) = 2 \<and> length (sets m) = 1
       | _ \<Rightarrow> False)
   \<and> (case App_handlePoint (teams sampleTournament) (Some sampleMatch) ''t-2'' attack (Some ''t-2-p3'') of
         Updated m \<Rightarrow> scoreB m = 1 \<and> MatchSet.scoreB (sets m ! 0) = 1 \<and> length (sets m) = 1
       | _ \<Rightarrow> False)
   \<and> (case App_handleNextSet (Some sampleMatch) of
         Updated m \<Rightarrow> currentSet m = 2 \<and> scoreA m = 0 \<and> sets m = sets sampleMatch @ [emptySet]
       | _ \<Rightarrow> False)
   \<and> (case handleStartNextSet (Some sampleMatch) (Some sampleTournament) of
         Updated m \<Rightarrow> currentSet m = 2 \<and> scoreA m = 0 \<and> sets m = sets sampleMatch @ [emptySet]
       | _ \<Rightarrow> False)
   \<and> (case startMatch (teams sampleTournament) sampleFixture of
         Updated m \<Rightarrow> currentSet m = 1 \<and> sets m = [emptySet]
       | _ \<Rightarrow> False)"
proof -
  have e: "entry_inv sampleMatch" and s: "sets_inv sampleMatch"
    by (simp_all add: sets_inv_def entry_inv_def sampleMatch_def)
  have r1: "case handlePoint (Some sampleMatch) (Some sampleTournament) ''t-1'' ace None of
              Updated m \<Rightarrow> scoreA m = 2 \<and> MatchSet.scoreA (sets m ! 0) = 2 \<and> length (sets m) = 1
            | _ \<Rightarrow> False"
    by code_simp
  have r2: "case App_handlePoint (teams sampleTournament) (Some sampleMatch) ''t-2'' attack (Some ''t-2-p3'') of
              Updated m \<Rightarrow> scoreB m = 1 \<and> MatchSet.scoreB (sets m ! 0) = 1 \<and> length (sets m) = 1
            | _ \<Rightarrow> False"
    by code_simp
  have r3: "case App_handleNextSet (Some sampleMatch) of
              Updated m \<Rightarrow> currentSet m = 2 \<and> scoreA m = 0 \<and> sets m = sets sampleMatch @ [emptySet]
            | _ \<Rightarrow> False"
    by code_simp
  have r4: "case handleStartNextSet (Some sampleMatch) (Some sampleTournament) of
              Updated m \<Rightarrow> currentSet m = 2 \<and> scoreA m = 0 \<and> sets m = sets sampleMatch @ [emptySet]
            | _ \<Rightarrow> False"
    by code_simp
  have r5: "case startMatch (teams sampleTournament) sampleFixture of
              Updated m \<Rightarrow> currentSet m = 1 \<and> sets m = [emptySet]
            | _ \<Rightarrow> False"
    by code_simp
  have a: "keeps_entry sampleMatch (handlePoint (Some sampleMatch) (Some sampleTournament) ''t-1'' ace None)
       \<and> keeps_entry sampleMatch
           (App_handlePoint (teams sampleTournament) (Some sampleMatch) ''t-2'' attack (Some ''t-2-p3''))
       \<and> keeps_entry sampleMatch (handleSubtractPoint (Some sampleMatch) (Some sampleTournament) True ''t-1'')"
    using scoreboard_sets_invariant [OF e, where activeTournament = "Some sampleTournament"
        and teamId = "''t-1''" and ty = ace and pl = None and isAdmin = True]
      scoreboard_sets_invariant [OF e, where teamsState = "teams sampleTournament"
        and teamId = "''t-2''" and ty = attack and pl = "Some ''t-2-p3''"]
    by blast
  have b: "keeps_last sampleMatch (App_handleNextSet (Some sampleMatch))
       \<and> keeps_last sampleMatch (handleStartNextSet (Some sampleMatch) (Some sampleTournament))
       \<and> starts_sets_inv (startMatch (teams sampleTournament) sampleFixture)
       \<and> starts_sets_inv (confirmStartMatch (Some sampleTournament) (Some ''fix-0'') sampleConfig)"
    using scoreboard_sets_invariant [OF e, where activeTournament = "Some sampleTournament"
        and teamsState = "teams sampleTournament" and fixture = sampleFixture
        and modal = "Some ''fix-0''" and cfg = sampleConfig] s
    by simp
  have h: "has_fixture (Some sampleTournament) sampleMatch"
    by code_simp
  have c: "stores (handlePoint (Some sampleMatch) (Some sampleTournament) ''t-1'' ace None)
       \<and> stores (handleSubtractPoint (Some sampleMatch) (Some sampleTournament) True ''t-1'')"
    using scoreboard_sets_invariant [OF e, where activeTournament = "Some sampleTournament"
        and teamId = "''t-1''" and ty = ace and pl = None and isAdmin = True] h
    by simp
  show ?thesis using e s r1 r2 r3 r4 r5 a b h c by blast
qed

text \<open>
  The console's set management is outside that invariant: reopening the first set keeps
  \<open>entry_inv\<close> but makes an earlier entry the current one, and starting the next set
  from there zeroes the scoreboard over the existing second entry.
\<close>

lemma handleStartNextSet_after_REOPEN:
  "case handleSetOperation (Some secondSetMatch) (Some sampleTournament) REOPEN 0 of
     Updated r \<Rightarrow>
       entry_inv r \<and> \<not> sets_inv r
       \<and> (case handleStartNextSet (Some r) (Some sampleTournament) of
             Updated m \<Rightarrow> currentSet m = 2 \<and> scoreA m = 0 \<and> scoreB m = 0
                          \<and> MatchSet.scoreB (sets m ! 1) = 10 \<and> \<not> entry_inv m
           | _ \<Rightarrow> False)
   | _ \<Rightarrow> False"
  by code_simp

subsection \<open>Subtracting a point\<close>

lemma subtractPoint_write_in_range:
  assumes "1 \<le> currentSet prev" "currentSet prev \<le> int (length (sets prev))"
  shows "subtractPoint_write prev a b =
     Some (prev\<lparr> status := playing, scoreA := a, scoreB := b,
        sets := (sets prev)[nat (currentSet prev - 1) :=
           (sets prev ! nat (currentSet prev - 1))\<lparr> MatchSet.scoreA := a, MatchSet.scoreB := b,
               history := butlast (history (sets prev ! nat (currentSet prev - 1))) \<rparr>] \<rparr>)"
  using assms by (simp add: subtractPoint_write_def js_index_def js_assign_def Let_def)

text \<open>
  Claim C10. For a match state whose entry \<open>sets[currentSet - 1]\<close> exists, with the
  fixture of the match present in the active tournament and an administrator logged in,
  \<open>handleSubtractPoint(teamId)\<close> stores a state \<open>m\<close>. If the selected team's score is 0 (or
  below), \<open>m\<close> is the previous state, unchanged. Otherwise exactly one is subtracted from
  that team's score and the other score is kept, the new score is not negative, the
  history of the current set loses its last entry (\<open>butlast\<close>; nothing is removed from an
  empty history), and the stored scores of the current set equal the new top-level
  scores. No score of a state with non-negative scores becomes negative.
\<close>

theorem handleSubtractPoint_bounded_undo:
  assumes fx: "find (\<lambda>f. fixture_id f = matchId prev) (fixtures t) = Some fixture"
    and lo: "1 \<le> currentSet prev"
    and hi: "currentSet prev \<le> int (length (sets prev))"
  shows "\<exists>m. handleSubtractPoint (Some prev) (Some t) True teamId = Updated m \<and>
           (if (if teamId = teamAId fixture then scoreA prev else scoreB prev) \<le> 0
            then m = prev
            else scoreA m = (if teamId = teamAId fixture then scoreA prev - 1 else scoreA prev) \<and>
                 scoreB m = (if teamId = teamAId fixture then scoreB prev else scoreB prev - 1) \<and>
                 0 \<le> (if teamId = teamAId fixture then scoreA m else scoreB m) \<and>
                 currentSet m = currentSet prev \<and>
                 length (sets m) = length (sets prev) \<and>
                 history (sets m ! nat (currentSet m - 1))
                   = butlast (history (sets prev ! nat (currentSet prev - 1))) \<and>
                 MatchSet.scoreA (sets m ! nat (currentSet m - 1)) = scoreA m \<and>
                 MatchSet.scoreB (sets m ! nat (currentSet m - 1)) = scoreB m) \<and>
           (if 0 \<le> scoreA prev \<and> 0 \<le> scoreB prev then 0 \<le> scoreA m \<and> 0 \<le> scoreB m else True)"
proof -
  have idx: "nat (currentSet prev - 1) < length (sets prev)"
    using lo hi by linarith
  show ?thesis
  proof (cases "teamId = teamAId fixture")
    case True
    show ?thesis
    proof (cases "scoreA prev > 0")
      case pos: True
      then show ?thesis
        using True fx idx subtractPoint_write_in_range [OF lo hi]
        by (simp add: handleSubtractPoint_def subtractPoint_updater_def)
    next
      case False
      then show ?thesis
        using True fx by (simp add: handleSubtractPoint_def subtractPoint_updater_def)
    qed
  next
    case False
    show ?thesis
    proof (cases "scoreB prev > 0")
      case pos: True
      then show ?thesis
        using False fx idx subtractPoint_write_in_range [OF lo hi]
        by (simp add: handleSubtractPoint_def subtractPoint_updater_def)
    next
      case nonpos: False
      then show ?thesis
        using False fx by (simp add: handleSubtractPoint_def subtractPoint_updater_def)
    qed
  qed
qed

theorem handleSubtractPoint_bounded_undo_witness:
  "find (\<lambda>f. fixture_id f = matchId sampleMatch) (fixtures sampleTournament) = Some sampleFixture
   \<and> 1 \<le> currentSet sampleMatch
   \<and> currentSet sampleMatch \<le> int (length (sets sampleMatch))
   \<and> handleSubtractPoint (Some sampleMatch) (Some sampleTournament) True ''t-1''
       = Updated (sampleMatch\<lparr> scoreA := 0, sets := [emptySet] \<rparr>)
   \<and> handleSubtractPoint (Some (sampleMatch\<lparr> scoreA := 0, sets := [emptySet] \<rparr>))
         (Some sampleTournament) True ''t-1''
       = Updated (sampleMatch\<lparr> scoreA := 0, sets := [emptySet] \<rparr>)"
proof -
  have fx: "find (\<lambda>f. fixture_id f = matchId sampleMatch) (fixtures sampleTournament)
              = Some sampleFixture"
    by (simp add: sampleMatch_def sampleTournament_def sampleFixture_def)
  have lo: "1 \<le> currentSet sampleMatch"
    and hi: "currentSet sampleMatch \<le> int (length (sets sampleMatch))"
    by (simp_all add: sampleMatch_def)
  have v: "teamAId sampleFixture = ''t-1''" "scoreA sampleMatch = 1" "scoreB sampleMatch = 0"
    "history (sets sampleMatch ! 0) \<noteq> []"
    by (simp_all add: sampleFixture_def sampleMatch_def)
  obtain m where m: "handleSubtractPoint (Some sampleMatch) (Some sampleTournament) True ''t-1''
                       = Updated m"
    and sc: "scoreA m = 0" "scoreB m = 0"
    using handleSubtractPoint_bounded_undo [OF fx lo hi, of "''t-1''"] v by auto
  have first: "handleSubtractPoint (Some sampleMatch) (Some sampleTournament) True ''t-1''
                = Updated (sampleMatch\<lparr> scoreA := 0, sets := [emptySet] \<rparr>)"
    by (simp add: handleSubtractPoint_def sampleTournament_def sampleFixture_def sampleMatch_def
        subtractPoint_updater_def subtractPoint_write_def js_index_def js_assign_def emptySet_def)
  have second: "handleSubtractPoint (Some (sampleMatch\<lparr> scoreA := 0, sets := [emptySet] \<rparr>))
                   (Some sampleTournament) True ''t-1''
                 = Updated (sampleMatch\<lparr> scoreA := 0, sets := [emptySet] \<rparr>)"
    by (simp add: handleSubtractPoint_def sampleTournament_def sampleFixture_def sampleMatch_def
        subtractPoint_updater_def)
  show ?thesis using fx lo hi first second m sc by simp
qed

subsection \<open>Rotations and benches\<close>

lemma findIndex_Some: "findIndex P xs = Some i \<Longrightarrow> i < length xs \<and> P (xs ! i)"
proof (induction xs arbitrary: i)
  case Nil
  then show ?case by simp
next
  case (Cons x xs)
  then show ?case by (cases "P x") (auto simp: nth_Cons')
qed

lemma mset_swap:
  assumes "i < length xs" "j < length ys"
  shows "mset (xs[i := ys ! j]) + mset (ys[j := xs ! i]) = mset xs + mset ys"
proof -
  have "mset (xs[i := ys ! j]) + mset (ys[j := xs ! i])
          = add_mset (ys ! j) (mset xs - {#xs ! i#}) + add_mset (xs ! i) (mset ys - {#ys ! j#})"
    using assms by (simp add: mset_update)
  also have "\<dots> = add_mset (xs ! i) (mset xs - {#xs ! i#}) + add_mset (ys ! j) (mset ys - {#ys ! j#})"
    by simp
  also have "\<dots> = mset xs + mset ys"
    using assms by (simp add: insert_DiffM)
  finally show ?thesis .
qed

text \<open>
  A confirmed substitution keeps the length of both rotations and, for each team, the
  players of rotation and bench taken together (as a multiset): the two players swap
  places.
\<close>

lemma confirmSub_updater_rotation:
  "length (rotationA (confirmSub_updater isTeamA outNum inNum prev)) = length (rotationA prev)
   \<and> length (rotationB (confirmSub_updater isTeamA outNum inNum prev)) = length (rotationB prev)
   \<and> mset (rotationA (confirmSub_updater isTeamA outNum inNum prev))
        + mset (benchA (confirmSub_updater isTeamA outNum inNum prev))
      = mset (rotationA prev) + mset (benchA prev)
   \<and> mset (rotationB (confirmSub_updater isTeamA outNum inNum prev))
        + mset (benchB (confirmSub_updater isTeamA outNum inNum prev))
      = mset (rotationB prev) + mset (benchB prev)"
  by (auto simp: confirmSub_updater_def Let_def mset_swap split: option.splits dest!: findIndex_Some)

text \<open>
  The bench computed from a rotation holds no player whose id is in the rotation, and
  every player of the roster has his id in the rotation or is on the bench.
\<close>

lemma notInRotation_partition:
  "(\<forall>p \<in> set (notInRotation rot ps). player_id p \<notin> player_id ` set rot)
   \<and> (\<forall>p \<in> set ps. player_id p \<in> player_id ` set rot \<or> p \<in> set (notInRotation rot ps))"
  by (auto simp: notInRotation_def find_None_iff image_iff) metis

lemma pickRotation_subset: "set (pickRotation team rotationInput) \<subseteq> set (players team)"
proof -
  have "p \<in> set (players team)"
    if "find (\<lambda>pl. number pl = num) (players team) = Some p" for num p
    using that by (auto simp: find_Some_iff)
  then show ?thesis
    by (auto simp: pickRotation_def List.map_filter_def split: option.splits)
qed

text \<open>
  A rotation edit that is stored gives the edited team six players of its roster as
  rotation and the rest of the roster as bench.
\<close>

lemma handleUpdateRotation_six:
  assumes "handleUpdateRotation (Some lm) modal (Some t) rotationInput = Updated m"
  shows "\<exists>teamId team. modal = Some teamId \<and> find (\<lambda>tm. team_id tm = teamId) (teams t) = Some team
           \<and> (let isTeamA = (case find (\<lambda>f. fixture_id f = matchId lm) (fixtures t) of
                                None \<Rightarrow> False | Some fixture \<Rightarrow> teamId = teamAId fixture);
                   rot = (if isTeamA then rotationA m else rotationB m);
                   bench = (if isTeamA then benchA m else benchB m)
               in rot = pickRotation team rotationInput \<and> length rot = 6
                  \<and> bench = notInRotation rot (players team))"
  using assms
  by (auto simp: handleUpdateRotation_def Let_def split: option.splits if_splits)

text \<open>
  Claim C4, evaluated where it fails. The compact App creates a team without players
  and \<open>startMatch\<close> takes \<open>players.slice(0, 6)\<close> as the rotation: for a fixture between two
  new teams the stored match has empty rotations, not rotations of six players.
\<close>

theorem startMatch_short_rotation:
  "case startMatch [App_newTeam ''t-1'' ''Norte'' ''admin'', App_newTeam ''t-2'' ''Sur'' ''admin'']
          sampleFixture of
     Updated m \<Rightarrow> rotationA m = [] \<and> rotationB m = [] \<and> length (rotationA m) \<noteq> 6
   | _ \<Rightarrow> False"
  by (simp add: startMatch_def App_newTeam_def sampleFixture_def)

subsection \<open>The relay\<close>

lemma map_of_assoc_put: "map_of (assoc_put k v kvs) = (map_of kvs)(k \<mapsto> v)"
  by (induction kvs) (auto simp: fun_eq_iff)

text \<open>
  The \<open>UPDATE\<close> step for every path that is stored as an own property of \<open>state\<close>: the
  value at \<open>path\<close> is overwritten, no other path changes, and the frame is appended to the
  outbox of exactly the open connections other than the sender.
\<close>

lemma relay_update_step:
  assumes msg: "get_member msg ''type'' = Some (JStr ''UPDATE'')"
    and path: "get_member msg ''path'' = Some (JStr path)"
    and key: "path \<noteq> ''__proto__'' \<or> \<not> proto_accessor (state r)"
  shows "\<exists>r'. on_message r ws (Some msg) = Some r'
           \<and> map_of (own (state r')) path = Some (get_member msg ''data'')
           \<and> (\<forall>k. k \<noteq> path \<longrightarrow> map_of (own (state r')) k = map_of (own (state r)) k)
           \<and> (\<forall>client. clients r' client =
                 (case clients r client of
                    None \<Rightarrow> None
                  | Some c \<Rightarrow>
                      Some (if client \<noteq> ws \<and> conn_readyState c = OPEN
                            then c\<lparr> outbox := outbox c @ [UPDATE_frame path (get_member msg ''data'')] \<rparr>
                            else c)))
           \<and> clients r' ws = clients r ws"
  using assms
  by (cases msg) (auto simp: on_message_def state_assign_def map_of_assoc_put broadcast_def
      get_member_def split: option.splits)

text \<open>
  The snapshot \<open>JSON.stringify(state)\<close> has exactly the own properties of \<open>state\<close> whose
  value is not \<open>undefined\<close>, each with its current value (\<open>own\<close> lists every property
  once, which the initial state and every assignment keep). After an assignment the
  snapshot holds the assigned value at that path and is unchanged at every other path.
\<close>

lemma map_of_defined_entries:
  "distinct (map fst kvs) \<Longrightarrow>
     map_of (List.map_filter (\<lambda>(k, v). map_option (Pair k) v) kvs) k
       = (case map_of kvs k of Some (Some v) \<Rightarrow> Some v | _ \<Rightarrow> None)"
proof (induction kvs)
  case Nil
  then show ?case by (simp add: List.map_filter_simps)
next
  case (Cons kv kvs)
  obtain k' v' where kv: "kv = (k', v')" by (cases kv)
  have notin: "k' \<notin> fst ` set kvs" using Cons.prems kv by simp
  have none: "map_of kvs k' = None" using notin by (simp add: map_of_eq_None_iff)
  show ?case
  proof (cases v')
    case None
    then show ?thesis using Cons kv none by (auto simp: List.map_filter_simps)
  next
    case (Some a)
    then show ?thesis using Cons kv by (auto simp: List.map_filter_simps)
  qed
qed

lemma snapshot_members:
  "distinct (map fst (own st)) \<Longrightarrow>
     get_member (stringify_state st) k
       = (case map_of (own st) k of Some (Some v) \<Rightarrow> Some v | _ \<Rightarrow> None)"
  by (simp add: stringify_state_def get_member_def map_of_defined_entries)

lemma map_fst_assoc_put:
  "map fst (assoc_put k v kvs) = (if k \<in> fst ` set kvs then map fst kvs else map fst kvs @ [k])"
  by (induction kvs) (force+)

lemma distinct_assoc_put:
  "distinct (map fst kvs) \<Longrightarrow> distinct (map fst (assoc_put k v kvs))"
  by (simp add: map_fst_assoc_put)

lemma state_assign_distinct:
  "distinct (map fst (own st)) \<Longrightarrow> distinct (map fst (own (state_assign st path d)))"
  by (auto simp: state_assign_def distinct_assoc_put split: option.splits json.splits)

lemma initial_state_distinct: "distinct (map fst (own initial_state))"
  by (simp add: initial_state_def)

lemma snapshot_after_assign:
  assumes "distinct (map fst (own st))" "path \<noteq> ''__proto__'' \<or> \<not> proto_accessor st"
  shows "get_member (stringify_state (state_assign st path d)) k
           = (if k = path then d else get_member (stringify_state st) k)"
proof -
  have o: "own (state_assign st path d) = assoc_put path d (own st)"
    using assms(2) by (auto simp: state_assign_def)
  have "distinct (map fst (own (state_assign st path d)))"
    using assms(1) by (rule state_assign_distinct)
  then have "get_member (stringify_state (state_assign st path d)) k
               = (case ((map_of (own st))(path \<mapsto> d)) k of Some (Some v) \<Rightarrow> Some v | _ \<Rightarrow> None)"
    by (simp add: snapshot_members o map_of_assoc_put)
  then show ?thesis
    using assms(1) by (cases d) (simp_all add: snapshot_members)
qed

lemma UPDATE_frame_members:
  "get_member (UPDATE_frame path d) ''type'' = Some (JStr ''UPDATE'')"
  "get_member (UPDATE_frame path d) ''path'' = Some (JStr path)"
  "get_member (UPDATE_frame path d) ''data'' = d"
  by (cases d; simp add: UPDATE_frame_def get_member_def)+

lemma on_message_UPDATE_frame:
  "on_message r sender (Some (UPDATE_frame path d))
     = Some (r\<lparr> state := state_assign (state r) path d,
                clients := broadcast sender (UPDATE_frame path d) (clients r) \<rparr>)"
proof -
  obtain fs where fs: "UPDATE_frame path d = JObj fs" by (simp add: UPDATE_frame_def)
  show ?thesis
    using UPDATE_frame_members [of path d]
    by (simp add: on_message_def fs [symmetric]) (simp add: fs)
qed

text \<open>A new connection is sent one \<open>INIT\<close> frame with the whole current state.\<close>

lemma on_connection_init:
  "clients (on_connection r ws) ws
     = Some \<lparr> conn_readyState = OPEN, outbox = [INIT_frame (stringify_state (state r))] \<rparr>"
  by (simp add: on_connection_def ws_send_def)

text \<open>
  Claim C1, evaluated where it fails. Connection 0 sends \<open>UPDATE\<close> for the path
  \<open>__proto__\<close> with the value 5. The frame is forwarded to connection 1 and not to
  connection 0, but the relay's state is not overwritten at that path: \<open>state\<close> is
  unchanged, has no member \<open>__proto__\<close>, and the snapshot a later \<open>INIT\<close> carries is the
  initial one.
\<close>

theorem relay_update_reserved_key:
  "case on_message two_clients 0 (Some proto_frame) of
     None \<Rightarrow> False
   | Some r' \<Rightarrow>
       state r' = state two_clients
       \<and> map_of (own (state r')) ''__proto__'' = None
       \<and> stringify_state (state r') = stringify_state initial_state
       \<and> map_option outbox (clients r' 1)
           = Some [INIT_frame (stringify_state initial_state), UPDATE_frame ''__proto__'' (Some (JNum 5))]
       \<and> map_option outbox (clients r' 0) = Some [INIT_frame (stringify_state initial_state)]"
  by (simp add: on_message_def two_clients_def proto_frame_def on_connection_def initial_relay_def
      get_member_def state_assign_def initial_state_def broadcast_def ws_send_def stringify_state_def
      List.map_filter_def)

lemma sync_request_reply:
  assumes "clients r ws = Some c" "conn_readyState c = OPEN"
  shows "on_message r ws (Some SYNC_REQUEST_frame)
           = Some (r\<lparr> clients := (clients r)
                      (ws \<mapsto> c\<lparr> outbox := outbox c @ [INIT_frame (stringify_state (state r))] \<rparr>) \<rparr>)"
  using assms
  by (auto simp: on_message_def SYNC_REQUEST_frame_def get_member_def ws_send_def fun_eq_iff
      intro!: arg_cong[where f="\<lambda>cs. r\<lparr>clients := cs\<rparr>"])

text \<open>
  An \<open>UPDATE\<close> followed by a \<open>SYNC_REQUEST\<close>: the snapshot resent to the requester holds
  the value just written.
\<close>

lemma resync_after_update:
  assumes c: "clients r ws = Some c" "conn_readyState c = OPEN"
    and wf: "distinct (map fst (own (state r)))"
    and key: "path \<noteq> ''__proto__'' \<or> \<not> proto_accessor (state r)"
  shows "\<exists>r1 c1 r2. on_message r sender (Some (UPDATE_frame path d)) = Some r1
           \<and> clients r1 ws = Some c1
           \<and> on_message r1 ws (Some SYNC_REQUEST_frame) = Some r2
           \<and> clients r2 = (clients r1)
                (ws \<mapsto> c1\<lparr> outbox := outbox c1 @ [INIT_frame (stringify_state (state r1))] \<rparr>)
           \<and> state r2 = state r1
           \<and> get_member (stringify_state (state r1)) path = d
           \<and> (\<forall>k. k \<noteq> path \<longrightarrow>
                  get_member (stringify_state (state r1)) k = get_member (stringify_state (state r)) k)"
proof -
  define r1 where "r1 = r\<lparr> state := state_assign (state r) path d,
                clients := broadcast sender (UPDATE_frame path d) (clients r) \<rparr>"
  define c1 where "c1 = (if ws \<noteq> sender then c\<lparr> outbox := outbox c @ [UPDATE_frame path d] \<rparr> else c)"
  have u: "on_message r sender (Some (UPDATE_frame path d)) = Some r1"
    by (simp add: on_message_UPDATE_frame r1_def)
  have c1: "clients r1 ws = Some c1" "conn_readyState c1 = OPEN"
    using c by (auto simp: r1_def c1_def broadcast_def)
  have st: "state r1 = state_assign (state r) path d" by (simp add: r1_def)
  have s: "on_message r1 ws (Some SYNC_REQUEST_frame)
           = Some (r1\<lparr> clients := (clients r1)
                      (ws \<mapsto> c1\<lparr> outbox := outbox c1 @ [INIT_frame (stringify_state (state r1))] \<rparr>) \<rparr>)"
    by (rule sync_request_reply [OF c1])
  show ?thesis
    using u c1(1) s snapshot_after_assign [OF wf key, of d] by (simp add: st)
qed

subsection \<open>Reconnection\<close>

lemma reconnect_cycle_eq:
  "reconnect_cycle t =
     t\<lparr> socket := Some CONNECTING, console := console t @ [''Disconnected from WebSocket server''] \<rparr>"
  by (simp add: reconnect_cycle_def fire_timer_def socket_onclose_def run_timer_def connectSocket_def)

lemma reconnect_cycles_timers: "timers ((reconnect_cycle ^^ n) t) = timers t"
  by (induction n) (simp_all add: reconnect_cycle_eq)

text \<open>
  Claim C7. When the socket closes, exactly one timer is added, with delay 3000 and the
  action of reconnecting; when it expires the module holds a new connecting socket and
  no timer is left from it. After any number \<open>n\<close> of such failed reconnections the next
  close schedules the same single timer with the same delay (the state carries no
  attempt counter and no delay). When a socket opens, \<open>SYNC_REQUEST\<close> is the frame sent.
  The relay answers \<open>SYNC_REQUEST\<close> from an open connection \<open>ws\<close> by appending the \<open>INIT\<close>
  frame with the whole state to the outbox of \<open>ws\<close>; no other connection, and nothing
  else of the relay, changes. The snapshot in that frame has, for every path, the value
  the state holds at that path when the request arrives: after an \<open>UPDATE\<close> of \<open>path\<close>
  with the value \<open>d\<close> from any connection, the snapshot resent to \<open>ws\<close> holds \<open>d\<close> at
  \<open>path\<close> and, at every other path, what the snapshot held before.
\<close>

theorem reconnect_and_resync:
  assumes "clients r ws = Some c" "conn_readyState c = OPEN"
  shows "timers (socket_onclose t) = timers t @ [(3000, Reconnect)]
       \<and> socket (reconnect_cycle t) = Some CONNECTING
       \<and> timers (reconnect_cycle t) = timers t
       \<and> timers (socket_onclose ((reconnect_cycle ^^ n) t)) = timers t @ [(3000, Reconnect)]
       \<and> sent (socket_onopen t) = sent t @ [SYNC_REQUEST_frame]
       \<and> socket (socket_onopen t) = Some OPEN
       \<and> on_message r ws (Some SYNC_REQUEST_frame)
           = Some (r\<lparr> clients := (clients r)
                      (ws \<mapsto> c\<lparr> outbox := outbox c @ [INIT_frame (stringify_state (state r))] \<rparr>) \<rparr>)
       \<and> (if distinct (map fst (own (state r)))
           then (\<forall>k. get_member (stringify_state (state r)) k
                        = (case map_of (own (state r)) k of Some (Some v) \<Rightarrow> Some v | _ \<Rightarrow> None))
              \<and> (if path \<noteq> ''__proto__'' \<or> \<not> proto_accessor (state r)
                  then \<exists>r1 c1 r2.
                         on_message r sender (Some (UPDATE_frame path d)) = Some r1
                       \<and> clients r1 ws = Some c1
                       \<and> on_message r1 ws (Some SYNC_REQUEST_frame) = Some r2
                       \<and> clients r2 = (clients r1)
                            (ws \<mapsto> c1\<lparr> outbox := outbox c1 @ [INIT_frame (stringify_state (state r1))] \<rparr>)
                       \<and> state r2 = state r1
                       \<and> distinct (map fst (own (state r1)))
                       \<and> get_member (stringify_state (state r1)) path = d
                       \<and> (\<forall>k. k \<noteq> path \<longrightarrow>
                              get_member (stringify_state (state r1)) k
                                = get_member (stringify_state (state r)) k)
                  else True)
           else True)"
proof -
  have client: "timers (socket_onclose t) = timers t @ [(3000, Reconnect)]
       \<and> socket (reconnect_cycle t) = Some CONNECTING
       \<and> timers (reconnect_cycle t) = timers t
       \<and> timers (socket_onclose ((reconnect_cycle ^^ n) t)) = timers t @ [(3000, Reconnect)]
       \<and> sent (socket_onopen t) = sent t @ [SYNC_REQUEST_frame]
       \<and> socket (socket_onopen t) = Some OPEN"
    using reconnect_cycles_timers [of n t]
    by (simp add: reconnect_cycle_eq socket_onclose_def socket_onopen_def)
  have reply: "on_message r ws (Some SYNC_REQUEST_frame)
           = Some (r\<lparr> clients := (clients r)
                      (ws \<mapsto> c\<lparr> outbox := outbox c @ [INIT_frame (stringify_state (state r))] \<rparr>) \<rparr>)"
    by (rule sync_request_reply [OF assms])
  have snap: "distinct (map fst (own (state r))) \<Longrightarrow>
                \<forall>k. get_member (stringify_state (state r)) k
                        = (case map_of (own (state r)) k of Some (Some v) \<Rightarrow> Some v | _ \<Rightarrow> None)"
    by (simp add: snapshot_members)
  have after: "\<exists>r1 c1 r2.
                         on_message r sender (Some (UPDATE_frame path d)) = Some r1
                       \<and> clients r1 ws = Some c1
                       \<and> on_message r1 ws (Some SYNC_REQUEST_frame) = Some r2
                       \<and> clients r2 = (clients r1)
                            (ws \<mapsto> c1\<lparr> outbox := outbox c1 @ [INIT_frame (stringify_state (state r1))] \<rparr>)
                       \<and> state r2 = state r1
                       \<and> distinct (map fst (own (state r1)))
                       \<and> get_member (stringify_state (state r1)) path = d
                       \<and> (\<forall>k. k \<noteq> path \<longrightarrow>
                              get_member (stringify_state (state r1)) k
                                = get_member (stringify_state (state r)) k)"
    if wf: "distinct (map fst (own (state r)))"
      and key: "path \<noteq> ''__proto__'' \<or> \<not> proto_accessor (state r)"
  proof -
    obtain r1 c1 r2 where
      x: "on_message r sender (Some (UPDATE_frame path d)) = Some r1"
         "clients r1 ws = Some c1"
         "on_message r1 ws (Some SYNC_REQUEST_frame) = Some r2"
         "clients r2 = (clients r1)
             (ws \<mapsto> c1\<lparr> outbox := outbox c1 @ [INIT_frame (stringify_state (state r1))] \<rparr>)"
         "state r2 = state r1"
         "get_member (stringify_state (state r1)) path = d"
         "\<forall>k. k \<noteq> path \<longrightarrow>
              get_member (stringify_state (state r1)) k = get_member (stringify_state (state r)) k"
      using resync_after_update [OF assms wf key, of sender d] by blast
    have "state r1 = state_assign (state r) path d"
      using x(1) by (auto simp: on_message_UPDATE_frame)
    then have "distinct (map fst (own (state r1)))"
      using wf by (simp add: state_assign_distinct)
    then show ?thesis using x by blast
  qed
  have content: "if distinct (map fst (own (state r)))
           then (\<forall>k. get_member (stringify_state (state r)) k
                        = (case map_of (own (state r)) k of Some (Some v) \<Rightarrow> Some v | _ \<Rightarrow> None))
              \<and> (if path \<noteq> ''__proto__'' \<or> \<not> proto_accessor (state r)
                  then \<exists>r1 c1 r2.
                         on_message r sender (Some (UPDATE_frame path d)) = Some r1
                       \<and> clients r1 ws = Some c1
                       \<and> on_message r1 ws (Some SYNC_REQUEST_frame) = Some r2
                       \<and> clients r2 = (clients r1)
                            (ws \<mapsto> c1\<lparr> outbox := outbox c1 @ [INIT_frame (stringify_state (state r1))] \<rparr>)
                       \<and> state r2 = state r1
                       \<and> distinct (map fst (own (state r1)))
                       \<and> get_member (stringify_state (state r1)) path = d
                       \<and> (\<forall>k. k \<noteq> path \<longrightarrow>
                              get_member (stringify_state (state r1)) k
                                = get_member (stringify_state (state r)) k)
                  else True)
           else True"
  proof (cases "distinct (map fst (own (state r)))")
    case wf: True
    show ?thesis
    proof (cases "path \<noteq> ''__proto__'' \<or> \<not> proto_accessor (state r)")
      case True
      show ?thesis using snap [OF wf] after [OF wf True] wf True by (simp only: if_True simp_thms)
    next
      case False
      show ?thesis using snap [OF wf] wf False by (simp only: if_True if_False simp_thms)
    qed
  next
    case False
    then show ?thesis by (simp only: if_False)
  qed
  show ?thesis using client reply content by (simp only: simp_thms)
qed

theorem reconnect_and_resync_witness:
  "clients two_clients 0
     = Some \<lparr> conn_readyState = OPEN, outbox = [INIT_frame (stringify_state initial_state)] \<rparr>
   \<and> distinct (map fst (own (state two_clients)))
   \<and> timers (socket_onclose connecting_client) = [(3000, Reconnect)]
   \<and> socket (reconnect_cycle connecting_client) = Some CONNECTING
   \<and> timers (reconnect_cycle connecting_client) = []
   \<and> timers (socket_onclose ((reconnect_cycle ^^ 5) connecting_client)) = [(3000, Reconnect)]
   \<and> sent (socket_onopen connecting_client) = [SYNC_REQUEST_frame]
   \<and> (case on_message two_clients 0 (Some SYNC_REQUEST_frame) of
         None \<Rightarrow> False
       | Some r' \<Rightarrow>
           map_option outbox (clients r' 0)
             = Some [INIT_frame (stringify_state initial_state), INIT_frame (stringify_state initial_state)]
           \<and> map_option outbox (clients r' 1) = Some [INIT_frame (stringify_state initial_state)]
           \<and> state r' = initial_state)
   \<and> (\<exists>r1 r2. on_message two_clients 1 (Some (UPDATE_frame ''liveMatch'' (Some match_update))) = Some r1
         \<and> on_message r1 0 (Some SYNC_REQUEST_frame) = Some r2
         \<and> get_member (stringify_state (state r1)) ''liveMatch'' = Some match_update
         \<and> get_member (stringify_state (state r1)) ''users'' = Some (JArr []))
   \<and> (case on_message two_clients 1 (Some (UPDATE_frame ''liveMatch'' (Some match_update))) of
         None \<Rightarrow> False
       | Some r1 \<Rightarrow>
           (case on_message r1 0 (Some SYNC_REQUEST_frame) of
              None \<Rightarrow> False
            | Some r2 \<Rightarrow>
                map_option outbox (clients r2 0)
                  = Some [INIT_frame (stringify_state initial_state),
                          UPDATE_frame ''liveMatch'' (Some match_update),
                          INIT_frame (JObj [(''users'', JArr []), (''teams'', JArr []),
                                            (''tournaments'', JArr []), (''liveMatch'', match_update)])]
                \<and> map_option outbox (clients r2 1) = Some [INIT_frame (stringify_state initial_state)]))"
proof -
  have c: "clients two_clients 0
             = Some \<lparr> conn_readyState = OPEN, outbox = [INIT_frame (stringify_state initial_state)] \<rparr>"
    by (simp add: two_clients_def on_connection_def initial_relay_def ws_send_def)
  have c1: "clients two_clients 1
             = Some \<lparr> conn_readyState = OPEN, outbox = [INIT_frame (stringify_state initial_state)] \<rparr>"
    and st: "state two_clients = initial_state"
    by (simp_all add: two_clients_def on_connection_def initial_relay_def ws_send_def)
  have wf: "distinct (map fst (own (state two_clients)))"
    by (simp add: st initial_state_def)
  have key: "''liveMatch'' \<noteq> ''__proto__'' \<or> \<not> proto_accessor (state two_clients)"
    by simp
  have u: "get_member (stringify_state (state two_clients)) ''users'' = Some (JArr [])"
    by (simp add: st initial_state_def stringify_state_def get_member_def List.map_filter_simps)
  have t0: "timers connecting_client = []" "sent connecting_client = []"
    by (simp_all add: connecting_client_def connectSocket_def new_cloud_def)
  have o: "conn_readyState \<lparr> conn_readyState = OPEN,
             outbox = [INIT_frame (stringify_state initial_state)] \<rparr> = OPEN"
    by simp
  note th = reconnect_and_resync [OF c o, where t = connecting_client and n = 5
      and path = "''liveMatch''" and d = "Some match_update" and sender = 1]
  have A: "timers (socket_onclose connecting_client) = timers connecting_client @ [(3000, Reconnect)]
       \<and> socket (reconnect_cycle connecting_client) = Some CONNECTING
       \<and> timers (reconnect_cycle connecting_client) = timers connecting_client
       \<and> timers (socket_onclose ((reconnect_cycle ^^ 5) connecting_client))
           = timers connecting_client @ [(3000, Reconnect)]
       \<and> sent (socket_onopen connecting_client) = sent connecting_client @ [SYNC_REQUEST_frame]"
    using th by simp
  have R: "on_message two_clients 0 (Some SYNC_REQUEST_frame)
           = Some (two_clients\<lparr> clients := (clients two_clients)
                      (0 \<mapsto> \<lparr> conn_readyState = OPEN,
                              outbox = [INIT_frame (stringify_state initial_state),
                                        INIT_frame (stringify_state initial_state)] \<rparr>) \<rparr>)"
    using th by (simp add: st)
  have old: "timers (socket_onclose connecting_client) = [(3000, Reconnect)]
   \<and> socket (reconnect_cycle connecting_client) = Some CONNECTING
   \<and> timers (reconnect_cycle connecting_client) = []
   \<and> timers (socket_onclose ((reconnect_cycle ^^ 5) connecting_client)) = [(3000, Reconnect)]
   \<and> sent (socket_onopen connecting_client) = [SYNC_REQUEST_frame]
   \<and> (case on_message two_clients 0 (Some SYNC_REQUEST_frame) of
         None \<Rightarrow> False
       | Some r' \<Rightarrow>
           map_option outbox (clients r' 0)
             = Some [INIT_frame (stringify_state initial_state), INIT_frame (stringify_state initial_state)]
           \<and> map_option outbox (clients r' 1) = Some [INIT_frame (stringify_state initial_state)]
           \<and> state r' = initial_state)"
    using A c1 st t0 by (simp add: R)
  have E: "\<exists>r1 c1 r2.
             on_message two_clients 1 (Some (UPDATE_frame ''liveMatch'' (Some match_update))) = Some r1
           \<and> clients r1 0 = Some c1
           \<and> on_message r1 0 (Some SYNC_REQUEST_frame) = Some r2
           \<and> clients r2 = (clients r1)
                (0 \<mapsto> c1\<lparr> outbox := outbox c1 @ [INIT_frame (stringify_state (state r1))] \<rparr>)
           \<and> state r2 = state r1
           \<and> distinct (map fst (own (state r1)))
           \<and> get_member (stringify_state (state r1)) ''liveMatch'' = Some match_update
           \<and> (\<forall>k. k \<noteq> ''liveMatch'' \<longrightarrow>
                  get_member (stringify_state (state r1)) k
                    = get_member (stringify_state (state two_clients)) k)"
    using th [unfolded if_P [OF wf] if_P [OF key]] by blast
  then obtain r1 r2 where
    x: "on_message two_clients 1 (Some (UPDATE_frame ''liveMatch'' (Some match_update))) = Some r1"
       "on_message r1 0 (Some SYNC_REQUEST_frame) = Some r2"
       "get_member (stringify_state (state r1)) ''liveMatch'' = Some match_update"
       "\<forall>k. k \<noteq> ''liveMatch'' \<longrightarrow>
                  get_member (stringify_state (state r1)) k
                    = get_member (stringify_state (state two_clients)) k"
    by blast
  have "get_member (stringify_state (state r1)) ''users'' = Some (JArr [])"
    using x(4) u by simp
  then have new: "\<exists>r1 r2. on_message two_clients 1 (Some (UPDATE_frame ''liveMatch'' (Some match_update))) = Some r1
         \<and> on_message r1 0 (Some SYNC_REQUEST_frame) = Some r2
         \<and> get_member (stringify_state (state r1)) ''liveMatch'' = Some match_update
         \<and> get_member (stringify_state (state r1)) ''users'' = Some (JArr [])"
    using x by blast
  have run: "case on_message two_clients 1 (Some (UPDATE_frame ''liveMatch'' (Some match_update))) of
         None \<Rightarrow> False
       | Some r1 \<Rightarrow>
           (case on_message r1 0 (Some SYNC_REQUEST_frame) of
              None \<Rightarrow> False
            | Some r2 \<Rightarrow>
                map_option outbox (clients r2 0)
                  = Some [INIT_frame (stringify_state initial_state),
                          UPDATE_frame ''liveMatch'' (Some match_update),
                          INIT_frame (JObj [(''users'', JArr []), (''teams'', JArr []),
                                            (''tournaments'', JArr []), (''liveMatch'', match_update)])]
                \<and> map_option outbox (clients r2 1) = Some [INIT_frame (stringify_state initial_state)])"
    by code_simp
  show ?thesis using c wf old new run by (simp only: simp_thms)
qed

subsection \<open>Publishing\<close>

lemma serialize_update_frame:
  "serialize (VObj [(''type'', VStr ''UPDATE''), (''path'', VStr path), (''data'', d)])
     = (case serialize d of None \<Rightarrow> None | Some dj \<Rightarrow> Some (Some (UPDATE_frame path dj)))"
  by (cases "serialize d") (auto simp: UPDATE_frame_def List.map_filter_def split: option.splits)

text \<open>
  On Backend A \<open>pushData\<close> always fulfils its promise. The value written is the
  round-tripped one; when the round trip fails (\<open>JSON.stringify\<close> throws, or yields
  \<open>undefined\<close>, which \<open>JSON.parse\<close> rejects) or the datastore refuses the write, one line
  is logged and nothing is written.
\<close>

lemma pushData_datastore:
  assumes "db t"
  shows "snd (pushData set_ok t path d) = Fulfilled
       \<and> (case serialize d of
             Some (Some cleanData) \<Rightarrow>
               fst (pushData set_ok t path d)
                 = (if set_ok then t\<lparr> written := written t @ [(path, cleanData)] \<rparr>
                    else t\<lparr> console := console t @ [''Sync Error:''] \<rparr>)
           | _ \<Rightarrow> fst (pushData set_ok t path d) = t\<lparr> console := console t @ [''Sync Error:''] \<rparr>)"
  using assms by (auto simp: pushData_def split: option.splits)

text \<open>
  Claim C5, evaluated where it fails. On Backend B, with the socket open, a value that
  \<open>JSON.stringify\<close> cannot serialize (here a \<open>BigInt\<close> member) makes \<open>pushData\<close> reject its
  promise; the module state, its console included, is unchanged: nothing is logged.
\<close>

theorem pushData_relay_serialization_rejects:
  "pushData set_ok ((new_cloud False App_initial_store)\<lparr> socket := Some OPEN \<rparr>) ''liveMatch''
      (VObj [(''matchId'', VStr ''m1''), (''scoreA'', VBigInt 1)])
     = ((new_cloud False App_initial_store)\<lparr> socket := Some OPEN \<rparr>, Rejected)"
  by (simp add: pushData_def new_cloud_def)

text \<open>
  Claim C6. On Backend B, for a value that serializes: \<open>pushData\<close> sends the \<open>UPDATE\<close>
  frame at once exactly when the socket is open; with a socket that is not open (in
  particular one still connecting) it sends nothing and schedules exactly one timer with
  delay 1000; without a socket it does nothing; the promise is fulfilled in every case.
  When that timer expires in a later state \<open>u\<close>, it leaves the timer list, the frame is
  sent if the socket is open then and dropped otherwise, and no timer is added.
\<close>

theorem pushData_relay_retry:
  assumes "\<not> db t" and "serialize d = Some dj"
  shows "pushData set_ok t path d =
           (if socket t = Some OPEN then (t\<lparr> sent := sent t @ [UPDATE_frame path dj] \<rparr>, Fulfilled)
            else if socket t \<noteq> None
            then (t\<lparr> timers := timers t @ [(1000, RetrySend path d)] \<rparr>, Fulfilled)
            else (t, Fulfilled))
       \<and> (if i < length (timers u) \<and> timers u ! i = (1000, RetrySend path d)
           then fire_timer u i =
                  (if socket u = Some OPEN
                   then u\<lparr> timers := take i (timers u) @ drop (Suc i) (timers u),
                           sent := sent u @ [UPDATE_frame path dj] \<rparr>
                   else u\<lparr> timers := take i (timers u) @ drop (Suc i) (timers u) \<rparr>)
           else True)"
  using assms
  by (simp add: pushData_def fire_timer_def run_timer_def serialize_update_frame del: serialize.simps)

theorem pushData_relay_retry_witness:
  "\<not> db connecting_client
   \<and> serialize sample_update = Some (Some (JObj [(''matchId'', JStr ''m1''), (''scoreA'', JNum 1)]))
   \<and> pushData True connecting_client ''liveMatch'' sample_update
       = (connecting_client\<lparr> timers := [(1000, RetrySend ''liveMatch'' sample_update)] \<rparr>, Fulfilled)
   \<and> sent (fire_timer (socket_onopen (fst (pushData True connecting_client ''liveMatch'' sample_update))) 0)
       = [SYNC_REQUEST_frame,
          UPDATE_frame ''liveMatch'' (Some (JObj [(''matchId'', JStr ''m1''), (''scoreA'', JNum 1)]))]
   \<and> timers (fire_timer (socket_onopen (fst (pushData True connecting_client ''liveMatch'' sample_update))) 0)
       = []
   \<and> fire_timer (fst (pushData True connecting_client ''liveMatch'' sample_update)) 0 = connecting_client
   \<and> pushData True (socket_onopen connecting_client) ''liveMatch'' sample_update
       = ((socket_onopen connecting_client)
            \<lparr> sent := [SYNC_REQUEST_frame,
                       UPDATE_frame ''liveMatch''
                         (Some (JObj [(''matchId'', JStr ''m1''), (''scoreA'', JNum 1)]))] \<rparr>,
          Fulfilled)"
proof -
  have nd: "\<not> db connecting_client"
    by (simp add: connecting_client_def connectSocket_def new_cloud_def)
  have ser: "serialize sample_update
               = Some (Some (JObj [(''matchId'', JStr ''m1''), (''scoreA'', JNum 1)]))"
    by (simp add: sample_update_def List.map_filter_def)
  have so: "socket connecting_client = Some CONNECTING" "timers connecting_client = []"
    "sent connecting_client = []"
    by (simp_all add: connecting_client_def connectSocket_def new_cloud_def)
  have p1: "pushData True connecting_client ''liveMatch'' sample_update
       = (connecting_client\<lparr> timers := [(1000, RetrySend ''liveMatch'' sample_update)] \<rparr>, Fulfilled)"
    using pushData_relay_retry [OF nd ser, of True "''liveMatch''" 0 connecting_client] so by simp
  have p2: "fire_timer (socket_onopen
                (connecting_client\<lparr> timers := [(1000, RetrySend ''liveMatch'' sample_update)] \<rparr>)) 0
       = (socket_onopen (connecting_client\<lparr> timers := [(1000, RetrySend ''liveMatch'' sample_update)] \<rparr>))
           \<lparr> timers := [], sent := [SYNC_REQUEST_frame,
               UPDATE_frame ''liveMatch'' (Some (JObj [(''matchId'', JStr ''m1''), (''scoreA'', JNum 1)]))] \<rparr>"
    using pushData_relay_retry [OF nd ser, of True "''liveMatch''" 0
        "socket_onopen (connecting_client\<lparr> timers := [(1000, RetrySend ''liveMatch'' sample_update)] \<rparr>)"] so
    by (simp add: socket_onopen_def)
  have p3: "fire_timer (connecting_client\<lparr> timers := [(1000, RetrySend ''liveMatch'' sample_update)] \<rparr>) 0
       = connecting_client"
    using pushData_relay_retry [OF nd ser, of True "''liveMatch''" 0
        "connecting_client\<lparr> timers := [(1000, RetrySend ''liveMatch'' sample_update)] \<rparr>"] so
    by (simp add: connecting_client_def connectSocket_def new_cloud_def)
  have nd': "\<not> db (socket_onopen connecting_client)"
    using nd by (simp add: socket_onopen_def)
  have p4: "pushData True (socket_onopen connecting_client) ''liveMatch'' sample_update
       = ((socket_onopen connecting_client)
            \<lparr> sent := [SYNC_REQUEST_frame,
                       UPDATE_frame ''liveMatch''
                         (Some (JObj [(''matchId'', JStr ''m1''), (''scoreA'', JNum 1)]))] \<rparr>,
          Fulfilled)"
    using pushData_relay_retry [OF nd' ser, of True "''liveMatch''" 0 connecting_client] so
    by (simp add: socket_onopen_def)
  show ?thesis using nd ser p1 p2 p3 p4 by simp
qed

subsection \<open>Subscribing and unsubscribing\<close>

text \<open>A path that names a member of \<open>Object.prototype\<close> cannot be subscribed: \<open>syncData\<close> throws.\<close>

lemma syncData_inherited:
  assumes "listeners t path = None" "path \<in> set object_prototype_names"
  shows "syncData t path cb = None"
  using assms by (simp add: syncData_def listeners_get_def)

lemma syncData_relay:
  assumes "\<not> db t" "path \<notin> set object_prototype_names"
  shows "syncData t path cb
           = Some (initSocket (t\<lparr> listeners := registered t path cb \<rparr>), RemoveListener path cb)"
  using assms
  by (auto simp: syncData_def listeners_get_def registered_def Let_def split: option.splits)

lemma syncData_datastore:
  assumes "db t" "path \<notin> set object_prototype_names"
  shows "syncData t path cb
           = Some (t\<lparr> listeners := registered t path cb,
                      subscriptions := subscriptions t @ [(fresh t, path, cb)],
                      fresh := fresh t + 1 \<rparr>, DatastoreUnsubscribe (fresh t))"
  using assms
  by (auto simp: syncData_def listeners_get_def registered_def Let_def split: option.splits)

lemma remove_listener:
  assumes "listeners t path = Some cbs"
  shows "call_unsubscribe t (RemoveListener path cb)
           = Some (t\<lparr> listeners := (listeners t)(path \<mapsto> filter (\<lambda>c. c \<noteq> cb) cbs) \<rparr>)"
  using assms by (simp add: call_unsubscribe_def listeners_get_def)

lemma notify_after_remove:
  "notify run ((listeners t)(path \<mapsto> filter (\<lambda>c. c \<noteq> cb) cbs)) q v s
     = (if q = path then call_all run (filter (\<lambda>c. c \<noteq> cb) cbs) v s
        else notify run (listeners t) q v s)"
  by (simp add: notify_def listeners_get_def)

text \<open>
  Claim C8, evaluated where it fails. With the datastore configured,
  \<open>syncData('users', cb)\<close> pushes \<open>cb\<close> into the listener list of \<open>users\<close> as on Backend B,
  but the function it returns is the handle of the datastore subscription: calling it
  ends that subscription and leaves \<open>cb\<close> in the listener list. In a module whose relay
  socket was opened before \<open>initCloud\<close> succeeded, a later \<open>UPDATE\<close> frame for \<open>users\<close>
  still calls the unsubscribed \<open>cb\<close>. Without the datastore the same calls leave the
  list empty and the frame calls nothing.
\<close>

theorem datastore_unsubscribe_keeps_listener:
  "(case syncData (new_cloud True []) ''users'' 7 of
      None \<Rightarrow> False
    | Some (t1, u) \<Rightarrow>
        u = DatastoreUnsubscribe 0 \<and> listeners t1 ''users'' = Some [7]
        \<and> subscriptions t1 = [(0, ''users'', 7)]
        \<and> (case call_unsubscribe t1 u of
              None \<Rightarrow> False
            | Some t2 \<Rightarrow> listeners t2 ''users'' = Some [7] \<and> subscriptions t2 = []))
   \<and> (case syncData (new_cloud False []) ''teams'' 1 of
         None \<Rightarrow> False
       | Some (t0, u0) \<Rightarrow>
           socket t0 = Some CONNECTING
           \<and> (case syncData (fst (initCloud InitReturns (socket_onopen t0))) ''users'' 7 of
                 None \<Rightarrow> False
               | Some (t1, u) \<Rightarrow>
                   u = DatastoreUnsubscribe 0
                   \<and> (case call_unsubscribe t1 u of
                         None \<Rightarrow> False
                       | Some t2 \<Rightarrow>
                           socket t2 = Some OPEN \<and> listeners t2 ''users'' = Some [7]
                           \<and> subscriptions t2 = []
                           \<and> map_option store
                                (socket_onmessage trace_run t2
                                   (Some (UPDATE_frame ''users'' (Some (JArr [])))))
                               = Some [7])))
   \<and> (case syncData (new_cloud False []) ''users'' 7 of
         None \<Rightarrow> False
       | Some (t1, u) \<Rightarrow>
           u = RemoveListener ''users'' 7 \<and> listeners t1 ''users'' = Some [7]
           \<and> (case call_unsubscribe (socket_onopen t1) u of
                 None \<Rightarrow> False
               | Some t2 \<Rightarrow>
                   listeners t2 ''users'' = Some []
                   \<and> map_option store
                        (socket_onmessage trace_run t2
                           (Some (UPDATE_frame ''users'' (Some (JArr [])))))
                       = Some []))"
  by code_simp

text \<open>
  On Backend B, with two subscribers on \<open>users\<close> and one on \<open>teams\<close>, the function
  returned for the first subscriber removes that callback only: the other two are still
  listed and still called.
\<close>

lemma relay_unsubscribe_three_listeners:
  "case three_listeners of
     None \<Rightarrow> False
   | Some t2 \<Rightarrow>
       listeners t2 ''users'' = Some [3, 9] \<and> listeners t2 ''teams'' = Some [1]
       \<and> (case call_unsubscribe t2 (RemoveListener ''users'' 3) of
             None \<Rightarrow> False
           | Some t3 \<Rightarrow>
               listeners t3 ''users'' = Some [9] \<and> listeners t3 ''teams'' = Some [1]
               \<and> map_option store
                    (socket_onmessage trace_run t3 (Some (UPDATE_frame ''users'' (Some (JArr [])))))
                   = Some [9]
               \<and> map_option store
                    (socket_onmessage trace_run t3 (Some (UPDATE_frame ''teams'' (Some (JArr [])))))
                   = Some [1])"
  by code_simp

subsection \<open>Malformed frames\<close>

text \<open>
  Claim C9. A message that \<open>JSON.parse\<close> rejects leaves the relay as it was but for one
  logged line: the state mapping and every connection, with its \<open>readyState\<close> and its
  outbox, are unchanged. On the client it leaves the module as it was but for one logged
  line: the socket, the listeners, the timers and the store are unchanged.
\<close>

theorem malformed_frame_tolerance:
  "on_message r ws None
     = Some (r\<lparr> relay_console := relay_console r @ [''Error processing message''] \<rparr>)
   \<and> socket_onmessage run t None
       = Some (t\<lparr> console := console t @ [''Error parsing WebSocket message''] \<rparr>)"
  by (simp add: on_message_def socket_onmessage_def caught_def)

subsection \<open>Bootstrap of the users slice\<close>










lemma INIT_frame_members:
  "get_member (INIT_frame d) ''type'' = Some (JStr ''INIT'')"
  "get_member (INIT_frame d) ''data'' = Some d"
  by (simp_all add: INIT_frame_def get_member_def)








text \<open>
  The \<open>users\<close> callback of the compact App restores the default list when the value is
  falsy (absent, \<open>null\<close>, \<open>false\<close>, 0 or the empty string), and the default list is not
  empty. It stores a truthy value as it is, the empty array included; the module this
  component imports hands it only what \<open>snapshot.val()\<close> of the datastore returns.
\<close>

lemma App_users_fallback:
  assumes "\<not> truthy d"
  shows "App_callbacks 3 d s = Some (s\<lparr> users_slice := INITIAL_USERS \<rparr>) \<and> non_empty INITIAL_USERS"
  using assms by (cases d) (auto simp: App_callbacks_def INITIAL_USERS_def non_empty_def)

lemma App_users_truthy:
  assumes "truthy (Some v)"
  shows "App_callbacks 3 (Some v) s = Some (s\<lparr> users_slice := v \<rparr>)"
  using assms by (simp add: App_callbacks_def)



end
